theory Spec2Isabelle
  imports Main "HOL-Library.Word"
begin

section \<open>The auth package of the driver: MONGODB-OIDC and PLAIN\<close>

text \<open>
  A shallow embedding of \<^verbatim>\<open>x/mongo/driver/auth/oidc.go\<close> and
  \<^verbatim>\<open>x/mongo/driver/auth/plain.go\<close>. Every method of the source is a function
  that takes the receiver (and the connection handle it touches) and returns them updated.
  The mutex \<^verbatim>\<open>oa.mu\<close> is not a field of the model: a method body is one sequential
  run, so what is proved of a method is proved of one call that no other call interleaves
  with. The \<^verbatim>\<open>context.Context\<close> arguments (deadlines, cancellation) are left out.
\<close>

subsection \<open>Errors and formatted messages\<close>

typedecl IDPInfo
  \<comment> \<open>\<^verbatim>\<open>driver.IDPInfo\<close>: only ever passed around by pointer in this package\<close>

text \<open>
  The arguments of a \<^verbatim>\<open>fmt\<close> verb. A formatted message is kept as its format
  string and its arguments, so that no rule of \<^verbatim>\<open>%q\<close> quoting is made up.
\<close>

datatype go_value = VString string | VIDPInfo "IDPInfo option" | VInt int

datatype message = Sprintf string "go_value list"

text \<open>
  Modelled from the spec: \<^verbatim>\<open>newAuthError\<close> is declared in a file of the package
  that is not among the sources; the spec describes its result as "an authentication-error
  value that carries the mechanism name and the underlying cause". \<open>AuthError msg inner\<close>
  is \<^verbatim>\<open>newAuthError(msg, inner)\<close>. \<open>Errorf\<close> is \<^verbatim>\<open>fmt.Errorf\<close> without
  a \<^verbatim>\<open>%w\<close> verb, \<open>Wrapf\<close> is \<^verbatim>\<open>fmt.Errorf\<close> whose last verb is
  \<^verbatim>\<open>%w\<close>, and \<open>ExternalError\<close> is an error made outside this package (by a
  callback, or by the transport during a conversation).
\<close>

datatype error =
    AuthError message "error option"
  | Errorf string "go_value list"
  | Wrapf string error
  | ExternalError string

definition newAuthError :: "message \<Rightarrow> error option \<Rightarrow> error" where
  "newAuthError msg inner = AuthError msg inner"

text \<open>
  A Go call either returns or panics. The one panic these files can raise is the nil
  pointer dereference.
\<close>

datatype 'a go = Return 'a | Panic

subsection \<open>Constants\<close>

definition MongoDBOIDC :: string where
  "MongoDBOIDC = ''MONGODB-OIDC''"

definition environmentProp :: string where
  "environmentProp = ''ENVIRONMENT''"

definition resourceProp :: string where
  "resourceProp = ''TOKEN_RESOURCE''"

definition azureEnvironmentValue :: string where
  "azureEnvironmentValue = ''azure''"

definition gcpEnvironmentValue :: string where
  "gcpEnvironmentValue = ''gcp''"

definition testEnvironmentValue :: string where
  "testEnvironmentValue = ''test''"

definition apiVersion :: int where
  "apiVersion = 1"

definition invalidateSleepTimeout :: nat where
  \<comment> \<open>\<^verbatim>\<open>100 * time.Millisecond\<close>, in milliseconds\<close>
  "invalidateSleepTimeout = 100"

definition PLAIN :: string where
  "PLAIN = ''PLAIN''"

subsection \<open>SASL clients\<close>

text \<open>
  Modelled from the spec: \<^verbatim>\<open>bsoncore\<close>'s document builder is not among the
  sources. A document is the list of its elements in the order they were appended; the
  only element this package appends is a string element. The byte encoding of a document is
  not modelled.
\<close>

datatype bson_element = StringElement string string

type_synonym bson_document = "bson_element list"

definition NewDocumentBuilder :: "bson_document" where
  "NewDocumentBuilder = []"

definition AppendString :: "string \<Rightarrow> string \<Rightarrow> bson_document \<Rightarrow> bson_document" where
  "AppendString k v b = b @ [StringElement k v]"

definition Build :: "bson_document \<Rightarrow> bson_document" where
  "Build b = b"

text \<open>The payload of one step: the bytes of PLAIN, or a document of OIDC.\<close>

datatype payload = Bytes string | Document bson_document

record oidcOneStep =
  oos_userName :: string
  oos_accessToken :: string

definition jwtStepRequest :: "string \<Rightarrow> payload" where
  "jwtStepRequest accessToken =
     Document (Build (AppendString ''jwt'' accessToken NewDocumentBuilder))"

definition oidcOneStep_Start :: "oidcOneStep \<Rightarrow> string \<times> payload \<times> error option" where
  "oidcOneStep_Start oos = (MongoDBOIDC, jwtStepRequest (oos_accessToken oos), None)"

definition oidcOneStep_Next :: "oidcOneStep \<Rightarrow> payload \<Rightarrow> payload option \<times> error option" where
  "oidcOneStep_Next oos challenge =
     (None, Some (newAuthError (Sprintf ''unexpected step in OIDC authentication'' []) None))"

definition oidcOneStep_Completed :: "oidcOneStep \<Rightarrow> bool" where
  "oidcOneStep_Completed oos = True"

record plainSaslClient =
  username :: string
  password :: string

definition plainSaslClient_Start :: "plainSaslClient \<Rightarrow> string \<times> payload \<times> error option" where
  "plainSaslClient_Start c =
     (PLAIN, Bytes ([CHR 0x00] @ username c @ [CHR 0x00] @ password c), None)"

definition plainSaslClient_Next ::
  "plainSaslClient \<Rightarrow> payload \<Rightarrow> payload option \<times> error option" where
  "plainSaslClient_Next c challenge =
     (None, Some (newAuthError (Sprintf ''unexpected server challenge'' []) None))"

definition plainSaslClient_Completed :: "plainSaslClient \<Rightarrow> bool" where
  "plainSaslClient_Completed c = True"

text \<open>The interface \<^verbatim>\<open>SaslClient\<close> and its two implementations in these files.\<close>

datatype SaslClient = OidcClient oidcOneStep | PlainClient plainSaslClient

fun Start :: "SaslClient \<Rightarrow> string \<times> payload \<times> error option" where
  "Start (OidcClient oos) = oidcOneStep_Start oos"
| "Start (PlainClient c) = plainSaslClient_Start c"

fun Next :: "SaslClient \<Rightarrow> payload \<Rightarrow> payload option \<times> error option" where
  "Next (OidcClient oos) challenge = oidcOneStep_Next oos challenge"
| "Next (PlainClient c) challenge = plainSaslClient_Next c challenge"

fun Completed :: "SaslClient \<Rightarrow> bool" where
  "Completed (OidcClient oos) = oidcOneStep_Completed oos"
| "Completed (PlainClient c) = plainSaslClient_Completed c"

subsection \<open>The outside world\<close>

text \<open>
  A callback and a conversation are calls out of the process: to an identity provider, to
  the server. \<open>'w\<close> is the state of everything out there; a callback and a
  conversation read it and change it. Beside it the model keeps, in \<open>events\<close>, the
  list of the calls made, in order, so that "the callback was called once" is a statement
  about a value.
\<close>

text \<open>
  \<^verbatim>\<open>driver.OIDCArgs\<close> and \<^verbatim>\<open>driver.OIDCCredential\<close> are declared outside
  the sources; their fields are the ones this package reads and writes. A time is its Unix
  seconds.
\<close>

record OIDCArgs =
  Version :: int
  args_IDPInfo :: "IDPInfo option"
  args_RefreshToken :: "string option"

record OIDCCredential =
  AccessToken :: string
  ExpiresAt :: "int option"
  RefreshToken :: "string option"

text \<open>
  \<^verbatim>\<open>OIDCCallback\<close>, a \<^verbatim>\<open>func(context.Context, *OIDCArgs) (*OIDCCredential, error)\<close>.
  Both results are pointers: a callback may return any of the four combinations.
\<close>

type_synonym 'w OIDCCallback =
  "OIDCArgs \<Rightarrow> 'w \<Rightarrow> (OIDCCredential option \<times> error option) \<times> 'w"

text \<open>
  Modelled from the spec: \<^verbatim>\<open>driver.Connection\<close> is an interface declared outside
  the sources; the two methods this package calls read and write the "connection
  generation slot: an integer owned by each connection".
\<close>

record driver_Connection =
  oidcTokenGenID :: "64 word"

definition OIDCTokenGenID :: "driver_Connection \<Rightarrow> 64 word" where
  "OIDCTokenGenID conn = oidcTokenGenID conn"

definition SetOIDCTokenGenID :: "driver_Connection \<Rightarrow> 64 word \<Rightarrow> driver_Connection" where
  "SetOIDCTokenGenID conn g = conn\<lparr>oidcTokenGenID := g\<rparr>"

text \<open>
  \<^verbatim>\<open>Config\<close> is declared in a file of the package that is not among the sources;
  the one field these files read is the connection.
\<close>

record Config =
  Connection :: driver_Connection

datatype event =
    CallbackInvoked OIDCArgs
  | ConversationConducted string SaslClient
  | Slept nat

record 'w world =
  outside :: 'w
  events :: "event list"

typedecl http_Client
  \<comment> \<open>\<^verbatim>\<open>http.Client\<close>: stored and handed on, never used by the code modelled here\<close>

text \<open>
  What this package calls and the sources do not define, or define by network I/O only.
  \<open>ConductSaslConversation\<close> is the conversation engine: it is given the
  configuration, the database name and the mechanism's client, talks to the server, and
  returns \<^verbatim>\<open>nil\<close> or an error. It is handed neither the authenticator nor the
  connection's generation slot. \<open>getAzureOIDCCallback\<close> stands for the closure the
  source's function of that name returns; its body is an HTTP request.
\<close>

record 'w externals =
  ConductSaslConversation :: "Config \<Rightarrow> string \<Rightarrow> SaslClient \<Rightarrow> 'w \<Rightarrow> error option \<times> 'w"
  getAzureOIDCCallback :: "string \<Rightarrow> string \<Rightarrow> http_Client option \<Rightarrow> 'w OIDCCallback"

definition invoke ::
  "'w OIDCCallback \<Rightarrow> OIDCArgs \<Rightarrow> 'w world \<Rightarrow> (OIDCCredential option \<times> error option) \<times> 'w world" where
  "invoke callback args w =
     (case callback args (outside w) of
        (r, x) \<Rightarrow> (r, w\<lparr>outside := x, events := events w @ [CallbackInvoked args]\<rparr>))"

definition conduct ::
  "'w externals \<Rightarrow> Config \<Rightarrow> string \<Rightarrow> SaslClient \<Rightarrow> 'w world \<Rightarrow> error option \<times> 'w world" where
  "conduct ext cfg db client w =
     (case ConductSaslConversation ext cfg db client (outside w) of
        (err, x) \<Rightarrow> (err, w\<lparr>outside := x, events := events w @ [ConversationConducted db client]\<rparr>))"

definition sleep :: "nat \<Rightarrow> 'w world \<Rightarrow> 'w world" where
  "sleep d w = w\<lparr>events := events w @ [Slept d]\<rparr>"

subsection \<open>The authenticator\<close>

text \<open>
  A Go map may be \<^verbatim>\<open>nil\<close>; reading a key of a \<^verbatim>\<open>nil\<close> map finds nothing.
\<close>

type_synonym props = "(string \<rightharpoonup> string) option"

definition lookup_prop :: "props \<Rightarrow> string \<Rightarrow> string option" where
  "lookup_prop m k = (case m of None \<Rightarrow> None | Some f \<Rightarrow> f k)"

text \<open>
  \<^verbatim>\<open>Cred\<close> is declared in a file of the package that is not among the sources; its
  fields are the ones these files read.
\<close>

record 'w Cred =
  Username :: string
  Password :: string
  Props :: props
  cred_OIDCMachineCallback :: "'w OIDCCallback option"
  cred_OIDCHumanCallback :: "'w OIDCCallback option"

text \<open>
  The fields of \<^verbatim>\<open>OIDCAuthenticator\<close> but the mutex. \<^verbatim>\<open>tokenGenID\<close> is a
  \<^verbatim>\<open>uint64\<close>: adding one to it wraps around.
\<close>

record 'w OIDCAuthenticator =
  AuthMechanismProperties :: props
  OIDCMachineCallback :: "'w OIDCCallback option"
  OIDCHumanCallback :: "'w OIDCCallback option"
  userName :: string
  httpClient :: "http_Client option"
  accessToken :: string
  refreshToken :: "string option"
  idpInfo :: "IDPInfo option"
  tokenGenID :: "64 word"


text \<open>
  \<^verbatim>\<open>strings.ToLower\<close> on the bytes of a string: an ASCII capital becomes its small
  letter, every other byte stays. (Go also maps capitals outside ASCII; none of them
  becomes a letter of "azure", "gcp" or "test", the only strings the result is compared
  with.)
\<close>

definition toLower_char :: "char \<Rightarrow> char" where
  "toLower_char c =
     (if 65 \<le> (of_char c :: nat) \<and> (of_char c :: nat) \<le> 90
      then char_of (of_char c + 32 :: nat) else c)"

definition ToLower :: "string \<Rightarrow> string" where
  "ToLower s = map toLower_char s"

definition newOIDCAuthenticator ::
  "'w Cred \<Rightarrow> http_Client option \<Rightarrow> 'w OIDCAuthenticator option \<times> error option" where
  "newOIDCAuthenticator cred hc =
     (let oa = \<lparr>AuthMechanismProperties = Props cred,
                OIDCMachineCallback = cred_OIDCMachineCallback cred,
                OIDCHumanCallback = cred_OIDCHumanCallback cred,
                userName = Username cred,
                httpClient = hc,
                accessToken = [],
                refreshToken = None,
                idpInfo = None,
                tokenGenID = 0\<rparr>;
          hasCallback = (cred_OIDCMachineCallback cred \<noteq> None \<or> cred_OIDCHumanCallback cred \<noteq> None);
          noCallbacks = (\<lambda>env. Errorf ''OIDC callbacks are not allowed for %q %q''
                                 [VString env, VString environmentProp])
      in if Password cred \<noteq> [] then
           (None, Some (Errorf ''password cannot be specified for %q'' [VString MongoDBOIDC]))
         else if Props cred = None then (Some oa, None)
         else
           (case lookup_prop (Props cred) environmentProp of
              None \<Rightarrow> (Some oa, None)
            | Some env \<Rightarrow>
                if ToLower env = azureEnvironmentValue \<or> ToLower env = gcpEnvironmentValue then
                  (case lookup_prop (Props cred) resourceProp of
                     None \<Rightarrow>
                       (None, Some (Errorf ''%q must be specified for %q %q''
                          [VString resourceProp, VString env, VString environmentProp]))
                   | Some _ \<Rightarrow>
                       if hasCallback then (None, Some (noCallbacks env)) else (Some oa, None))
                else if ToLower env = testEnvironmentValue then
                  (if hasCallback then (None, Some (noCallbacks env)) else (Some oa, None))
                else (Some oa, None)))"

text \<open>
  The callback of the \<^verbatim>\<open>gcp\<close> case: it returns no credential and an error, and
  touches nothing.
\<close>

definition gcpCallback :: "string \<Rightarrow> 'w OIDCCallback" where
  "gcpCallback env args x =
     ((None, Some (Errorf ''automatic token acquisition for %q not implemented yet'' [VString env])), x)"

definition providerCallback ::
  "'w externals \<Rightarrow> 'w OIDCAuthenticator \<Rightarrow> 'w OIDCCallback option \<times> error option" where
  "providerCallback ext oa =
     (case lookup_prop (AuthMechanismProperties oa) environmentProp of
        None \<Rightarrow> (None, None)
      | Some env \<Rightarrow>
          if env = azureEnvironmentValue then
            (case lookup_prop (AuthMechanismProperties oa) resourceProp of
               None \<Rightarrow>
                 (None, Some (newAuthError
                    (Sprintf ''%q must be specified for Azure OIDC'' [VString resourceProp]) None))
             | Some resource \<Rightarrow>
                 (Some (getAzureOIDCCallback ext (userName oa) resource (httpClient oa)), None))
          else if env = gcpEnvironmentValue then
            (Some (gcpCallback env),
             Some (Errorf ''automatic token acquisition for %q not implemented yet'' [VString env]))
          else
            (None, Some (Errorf ''%q %q not supported for MONGODB-OIDC''
               [VString environmentProp, VString env])))"

text \<open>
  \<^verbatim>\<open>getAccessToken\<close> tests the error first. With a \<^verbatim>\<open>nil\<close> error and a
  \<^verbatim>\<open>nil\<close> credential, \<^verbatim>\<open>cred.AccessToken\<close> dereferences \<^verbatim>\<open>nil\<close>: the
  call panics before anything is assigned.
\<close>

definition getAccessToken ::
  "'w OIDCAuthenticator \<Rightarrow> driver_Connection \<Rightarrow> OIDCArgs \<Rightarrow> 'w OIDCCallback \<Rightarrow> 'w world \<Rightarrow>
   (string \<times> error option) go \<times> 'w OIDCAuthenticator \<times> driver_Connection \<times> 'w world" where
  "getAccessToken oa conn args callback w =
     (if accessToken oa \<noteq> [] then (Return (accessToken oa, None), oa, conn, w)
      else
        (case invoke callback args w of
           ((_, Some err), w') \<Rightarrow> (Return ([], Some err), oa, conn, w')
         | ((None, None), w') \<Rightarrow> (Panic, oa, conn, w')
         | ((Some cred, None), w') \<Rightarrow>
             (let oa1 = oa\<lparr>accessToken := AccessToken cred\<rparr>;
                  oa2 = oa1\<lparr>tokenGenID := tokenGenID oa1 + 1\<rparr>;
                  conn' = SetOIDCTokenGenID conn (tokenGenID oa2);
                  oa3 = (case RefreshToken cred of
                           None \<Rightarrow> oa2
                         | Some r \<Rightarrow> oa2\<lparr>refreshToken := Some r\<rparr>)
              in (Return (AccessToken cred, None), oa3, conn', w'))))"

definition invalidateAccessToken ::
  "'w OIDCAuthenticator \<Rightarrow> driver_Connection \<Rightarrow> 'w OIDCAuthenticator \<times> driver_Connection" where
  "invalidateAccessToken oa conn =
     (let g = OIDCTokenGenID conn
      in if g = 0 \<or> tokenGenID oa \<le> g
         then (oa\<lparr>accessToken := []\<rparr>, SetOIDCTokenGenID conn 0)
         else (oa, conn))"

definition doAuthHuman ::
  "'w OIDCAuthenticator \<Rightarrow> Config \<Rightarrow> 'w OIDCCallback \<Rightarrow> error option" where
  "doAuthHuman oa cfg callback =
     Some (newAuthError (Sprintf ''OIDC'' [])
       (Some (Errorf ''human flow not implemented yet, %v'' [VIDPInfo (idpInfo oa)])))"

definition doAuthMachine ::
  "'w externals \<Rightarrow> 'w OIDCAuthenticator \<Rightarrow> Config \<Rightarrow> 'w OIDCCallback \<Rightarrow> 'w world \<Rightarrow>
   error option go \<times> 'w OIDCAuthenticator \<times> Config \<times> 'w world" where
  "doAuthMachine ext oa cfg machineCallback w =
     (case getAccessToken oa (Connection cfg)
             \<lparr>Version = apiVersion, args_IDPInfo = None, args_RefreshToken = None\<rparr>
             machineCallback w of
        (Panic, oa', conn', w') \<Rightarrow> (Panic, oa', cfg\<lparr>Connection := conn'\<rparr>, w')
      | (Return (tok, Some err), oa', conn', w') \<Rightarrow>
          (Return (Some err), oa', cfg\<lparr>Connection := conn'\<rparr>, w')
      | (Return (tok, None), oa', conn', w') \<Rightarrow>
          (case conduct ext (cfg\<lparr>Connection := conn'\<rparr>) ''$external''
                  (OidcClient \<lparr>oos_userName = [], oos_accessToken = tok\<rparr>) w' of
             (r, w'') \<Rightarrow> (Return r, oa', cfg\<lparr>Connection := conn'\<rparr>, w'')))"

text \<open>
  Lines 334 to 352 of \<^verbatim>\<open>Auth\<close>: what runs when no token is cached, or after the
  conversation with the cached token failed.
\<close>

definition Auth_dispatch ::
  "'w externals \<Rightarrow> 'w OIDCAuthenticator \<Rightarrow> Config \<Rightarrow> 'w world \<Rightarrow>
   error option go \<times> 'w OIDCAuthenticator \<times> Config \<times> 'w world" where
  "Auth_dispatch ext oa cfg w =
     (case OIDCHumanCallback oa of
        Some human \<Rightarrow> (Return (doAuthHuman oa cfg human), oa, cfg, w)
      | None \<Rightarrow>
          (case OIDCMachineCallback oa of
             Some machineCallback \<Rightarrow> doAuthMachine ext oa cfg machineCallback w
           | None \<Rightarrow>
               (case providerCallback ext oa of
                  (_, Some err) \<Rightarrow>
                    (Return (Some (Wrapf ''error getting built-in OIDC provider: %w'' err)), oa, cfg, w)
                | (Some machineCallback, None) \<Rightarrow> doAuthMachine ext oa cfg machineCallback w
                | (None, None) \<Rightarrow>
                    (Return (Some (newAuthError (Sprintf ''no OIDC callback provided'' []) None)),
                     oa, cfg, w))))"

definition Auth ::
  "'w externals \<Rightarrow> 'w OIDCAuthenticator \<Rightarrow> Config option \<Rightarrow> 'w world \<Rightarrow>
   error option go \<times> 'w OIDCAuthenticator \<times> Config option \<times> 'w world" where
  "Auth ext oa cfg w =
     (case cfg of
        None \<Rightarrow>
          (Return (Some (newAuthError
             (Sprintf ''config must be set for %q authentication'' [VString MongoDBOIDC]) None)),
           oa, None, w)
      | Some c \<Rightarrow>
          (let cachedAccessToken = accessToken oa
           in if cachedAccessToken \<noteq> [] then
                (case conduct ext c ''$external''
                        (OidcClient \<lparr>oos_userName = userName oa,
                                     oos_accessToken = cachedAccessToken\<rparr>) w of
                   (None, w1) \<Rightarrow> (Return None, oa, Some c, w1)
                 | (Some err, w1) \<Rightarrow>
                     (case invalidateAccessToken oa (Connection c) of
                        (oa1, conn1) \<Rightarrow>
                          (case Auth_dispatch ext oa1 (c\<lparr>Connection := conn1\<rparr>)
                                  (sleep invalidateSleepTimeout w1) of
                             (r, oa2, c2, w2) \<Rightarrow> (r, oa2, Some c2, w2))))
              else
                (case Auth_dispatch ext oa c w of
                   (r, oa2, c2, w2) \<Rightarrow> (r, oa2, Some c2, w2))))"


text \<open>
  Modelled from the spec: \<^verbatim>\<open>newSaslConversation\<close> is declared in a file of the
  package that is not among the sources. The spec's conversation "holds a mechanism-client
  instance"; the value built here holds the three arguments of the call.
\<close>

record saslConversation =
  client :: SaslClient
  source :: string
  speculative :: bool

definition newSaslConversation :: "SaslClient \<Rightarrow> string \<Rightarrow> bool \<Rightarrow> saslConversation" where
  "newSaslConversation c db spec = \<lparr>client = c, source = db, speculative = spec\<rparr>"

definition CreateSpeculativeConversation ::
  "'w OIDCAuthenticator \<Rightarrow> saslConversation option \<times> error option" where
  "CreateSpeculativeConversation oa =
     (let tok = accessToken oa
      in if tok = [] then (None, None)
         else (Some (newSaslConversation
                 (OidcClient \<lparr>oos_userName = [], oos_accessToken = tok\<rparr>) ''$external'' True),
               None))"

subsection \<open>PLAIN\<close>

record PlainAuthenticator =
  plain_Username :: string
  plain_Password :: string

definition newPlainAuthenticator ::
  "'w Cred \<Rightarrow> http_Client option \<Rightarrow> PlainAuthenticator option \<times> error option" where
  "newPlainAuthenticator cred hc =
     (Some \<lparr>plain_Username = Username cred, plain_Password = Password cred\<rparr>, None)"

definition PlainAuthenticator_Auth ::
  "'w externals \<Rightarrow> PlainAuthenticator \<Rightarrow> Config \<Rightarrow> 'w world \<Rightarrow> error option \<times> 'w world" where
  "PlainAuthenticator_Auth ext a cfg w =
     conduct ext cfg ''$external''
       (PlainClient \<lparr>username = plain_Username a, password = plain_Password a\<rparr>) w"

definition PlainAuthenticator_Reauth :: "PlainAuthenticator \<Rightarrow> error option" where
  "PlainAuthenticator_Reauth a =
     Some (newAuthError (Sprintf ''Plain authentication does not support reauthentication'' []) None)"

subsection \<open>Notions the theorems are stated with\<close>

text \<open>
  The state in which \<^verbatim>\<open>Auth\<close> reaches line 334 (the choice between the human
  callback, the machine callback and the built-in provider): at once when no token is
  cached, after the invalidation and the sleep when the conversation with the cached token
  failed, and not at all (\<open>None\<close>) when that conversation succeeded.
\<close>

definition enters_dispatch ::
  "'w externals \<Rightarrow> 'w OIDCAuthenticator \<Rightarrow> Config \<Rightarrow> 'w world \<Rightarrow>
   ('w OIDCAuthenticator \<times> Config \<times> 'w world) option" where
  "enters_dispatch ext oa c w =
     (if accessToken oa = [] then Some (oa, c, w)
      else
        (case conduct ext c ''$external''
                (OidcClient \<lparr>oos_userName = userName oa, oos_accessToken = accessToken oa\<rparr>) w of
           (None, w1) \<Rightarrow> None
         | (Some err, w1) \<Rightarrow>
             (case invalidateAccessToken oa (Connection c) of
                (oa1, conn1) \<Rightarrow>
                  Some (oa1, c\<lparr>Connection := conn1\<rparr>, sleep invalidateSleepTimeout w1))))"

text \<open>The authenticator \<^verbatim>\<open>newOIDCAuthenticator\<close> builds when it accepts a credential.\<close>

definition constructed :: "'w Cred \<Rightarrow> http_Client option \<Rightarrow> 'w OIDCAuthenticator" where
  "constructed cred hc =
     \<lparr>AuthMechanismProperties = Props cred,
      OIDCMachineCallback = cred_OIDCMachineCallback cred,
      OIDCHumanCallback = cred_OIDCHumanCallback cred,
      userName = Username cred, httpClient = hc, accessToken = [], refreshToken = None,
      idpInfo = None, tokenGenID = 0\<rparr>"

text \<open>How many conversations, and how many callback calls, a list of events holds.\<close>

fun conversations :: "event list \<Rightarrow> nat" where
  "conversations [] = 0"
| "conversations (ConversationConducted db c # evs) = Suc (conversations evs)"
| "conversations (_ # evs) = conversations evs"

fun callback_calls :: "event list \<Rightarrow> nat" where
  "callback_calls [] = 0"
| "callback_calls (CallbackInvoked args # evs) = Suc (callback_calls evs)"
| "callback_calls (_ # evs) = callback_calls evs"


record 'w system =
  authenticator :: "'w OIDCAuthenticator"
  connections :: "nat \<Rightarrow> driver_Connection"
  sys_world :: "'w world"




subsection \<open>Concrete values the theorems below are run on\<close>

definition example_credential :: OIDCCredential where
  "example_credential = \<lparr>AccessToken = ''T1'', ExpiresAt = None, RefreshToken = Some ''R1''\<rparr>"

definition example_callback :: "nat OIDCCallback" where
  "example_callback args n = ((Some example_credential, None), Suc n)"

definition failing_callback :: "nat OIDCCallback" where
  "failing_callback args n = ((None, Some (ExternalError ''idp unreachable'')), Suc n)"

definition nil_callback :: "nat OIDCCallback" where
  "nil_callback args n = ((None, None), Suc n)"

definition example_oa :: "string \<Rightarrow> 64 word \<Rightarrow> nat OIDCAuthenticator" where
  "example_oa tok g =
     \<lparr>AuthMechanismProperties = None, OIDCMachineCallback = Some example_callback,
      OIDCHumanCallback = None, userName = ''user'', httpClient = None,
      accessToken = tok, refreshToken = None, idpInfo = None, tokenGenID = g\<rparr>"

definition example_args :: OIDCArgs where
  "example_args = \<lparr>Version = apiVersion, args_IDPInfo = None, args_RefreshToken = None\<rparr>"

definition example_world :: "nat world" where
  "example_world = \<lparr>outside = 0, events = []\<rparr>"

definition example_ext :: "nat externals" where
  "example_ext =
     \<lparr>ConductSaslConversation =
        (\<lambda>cfg db cl n.
           (case cl of
              OidcClient oos \<Rightarrow>
                if oos_accessToken oos = ''T1'' then None
                else Some (ExternalError ''authentication failed'')
            | PlainClient c \<Rightarrow> Some (ExternalError ''authentication failed''),
            Suc n)),
      getAzureOIDCCallback = (\<lambda>clientID resource hc. example_callback)\<rparr>"

definition example_config :: "64 word \<Rightarrow> Config" where
  "example_config g = \<lparr>Connection = \<lparr>oidcTokenGenID = g\<rparr>\<rparr>"

definition provider_oa :: "string \<Rightarrow> nat OIDCAuthenticator" where
  "provider_oa env =
     (example_oa [] 0)
       \<lparr>OIDCMachineCallback := None,
        AuthMechanismProperties :=
          Some [''ENVIRONMENT'' \<mapsto> env, ''TOKEN_RESOURCE'' \<mapsto> ''api://r'']\<rparr>"

definition example_cred ::
  "string \<Rightarrow> (string \<rightharpoonup> string) \<Rightarrow> nat OIDCCallback option \<Rightarrow> nat Cred" where
  "example_cred pw ps cb =
     \<lparr>Username = ''user'', Password = pw, Props = Some ps,
      cred_OIDCMachineCallback = cb, cred_OIDCHumanCallback = None\<rparr>"




subsection \<open>Concurrent calls of \<^verbatim>\<open>Auth\<close>\<close>

text \<open>
  The mutex \<^verbatim>\<open>oa.mu\<close> makes each locked region of the source one indivisible
  step. A call of \<^verbatim>\<open>Auth\<close> with a configuration is then a sequence of steps, and
  where it stands is one of:
  \<^item> \<open>AtStart\<close>: before the locked snapshot of the cached token (lines 315 to 317);
  \<^item> \<open>AfterSnapshot tok\<close>: before the test of the snapshot (line 319) and the
    conversation with it, which runs with no lock held;
  \<^item> \<open>AfterFailedConversation\<close>: before \<^verbatim>\<open>invalidateAccessToken\<close> (locked) and
    the sleep;
  \<^item> \<open>AtDispatch\<close>: at line 334, before the choice of the callback (which reads fields
    nobody writes) and \<^verbatim>\<open>getAccessToken\<close>, locked for its whole body, the call of
    the callback included;
  \<^item> \<open>AfterGetAccessToken tok\<close>: in \<^verbatim>\<open>doAuthMachine\<close>, before the conversation
    with the acquired token, which runs with no lock held;
  \<^item> \<open>Returned r\<close>: the call has returned \<open>r\<close>.
  Call number \<open>t\<close> runs on connection number \<open>t\<close>. A schedule is the list of
  the calls in the order in which they take their steps.
\<close>

datatype auth_pc =
    AtStart
  | AfterSnapshot string
  | AfterFailedConversation
  | AtDispatch
  | AfterGetAccessToken string
  | Returned "error option go"

record 'w threads_state =
  shared :: "'w system"
  pcs :: "nat \<Rightarrow> auth_pc"

text \<open>
  Lines 334 to 352 up to the call of \<^verbatim>\<open>doAuthMachine\<close>: the error the call returns
  at once, or the callback it goes on with.
\<close>

definition choose_callback ::
  "'w externals \<Rightarrow> 'w OIDCAuthenticator \<Rightarrow> Config \<Rightarrow> error option + 'w OIDCCallback" where
  "choose_callback ext oa cfg =
     (case OIDCHumanCallback oa of
        Some human \<Rightarrow> Inl (doAuthHuman oa cfg human)
      | None \<Rightarrow>
          (case OIDCMachineCallback oa of
             Some machineCallback \<Rightarrow> Inr machineCallback
           | None \<Rightarrow>
               (case providerCallback ext oa of
                  (_, Some err) \<Rightarrow>
                    Inl (Some (Wrapf ''error getting built-in OIDC provider: %w'' err))
                | (Some machineCallback, None) \<Rightarrow> Inr machineCallback
                | (None, None) \<Rightarrow>
                    Inl (Some (newAuthError (Sprintf ''no OIDC callback provided'' []) None)))))"

definition set_pc :: "nat \<Rightarrow> auth_pc \<Rightarrow> 'w threads_state \<Rightarrow> 'w threads_state" where
  "set_pc t pc st = st\<lparr>pcs := (pcs st)(t := pc)\<rparr>"

definition thread_step :: "'w externals \<Rightarrow> nat \<Rightarrow> 'w threads_state \<Rightarrow> 'w threads_state" where
  "thread_step ext t st =
     (let s = shared st; oa = authenticator s; conn = connections s t;
          cfg = \<lparr>Connection = conn\<rparr>; w = sys_world s
      in case pcs st t of
           AtStart \<Rightarrow> set_pc t (AfterSnapshot (accessToken oa)) st
         | AfterSnapshot cachedAccessToken \<Rightarrow>
             if cachedAccessToken \<noteq> [] then
               (case conduct ext cfg ''$external''
                       (OidcClient \<lparr>oos_userName = userName oa,
                                    oos_accessToken = cachedAccessToken\<rparr>) w of
                  (None, w1) \<Rightarrow>
                    set_pc t (Returned (Return None)) (st\<lparr>shared := s\<lparr>sys_world := w1\<rparr>\<rparr>)
                | (Some err, w1) \<Rightarrow>
                    set_pc t AfterFailedConversation (st\<lparr>shared := s\<lparr>sys_world := w1\<rparr>\<rparr>))
             else set_pc t AtDispatch st
         | AfterFailedConversation \<Rightarrow>
             (case invalidateAccessToken oa conn of
                (oa1, conn1) \<Rightarrow>
                  set_pc t AtDispatch
                    (st\<lparr>shared := s\<lparr>authenticator := oa1,
                                    connections := (connections s)(t := conn1),
                                    sys_world := sleep invalidateSleepTimeout w\<rparr>\<rparr>))
         | AtDispatch \<Rightarrow>
             (case choose_callback ext oa cfg of
                Inl r \<Rightarrow> set_pc t (Returned (Return r)) st
              | Inr machineCallback \<Rightarrow>
                  (case getAccessToken oa conn
                          \<lparr>Version = apiVersion, args_IDPInfo = None, args_RefreshToken = None\<rparr>
                          machineCallback w of
                     (r, oa', conn', w') \<Rightarrow>
                       set_pc t
                         (case r of
                            Panic \<Rightarrow> Returned Panic
                          | Return (tok, Some err) \<Rightarrow> Returned (Return (Some err))
                          | Return (tok, None) \<Rightarrow> AfterGetAccessToken tok)
                         (st\<lparr>shared := s\<lparr>authenticator := oa',
                                         connections := (connections s)(t := conn'),
                                         sys_world := w'\<rparr>\<rparr>)))
         | AfterGetAccessToken tok \<Rightarrow>
             (case conduct ext cfg ''$external''
                     (OidcClient \<lparr>oos_userName = [], oos_accessToken = tok\<rparr>) w of
                (r, w1) \<Rightarrow> set_pc t (Returned (Return r)) (st\<lparr>shared := s\<lparr>sys_world := w1\<rparr>\<rparr>))
         | Returned r \<Rightarrow> st)"

fun run_schedule :: "'w externals \<Rightarrow> nat list \<Rightarrow> 'w threads_state \<Rightarrow> 'w threads_state" where
  "run_schedule ext [] st = st"
| "run_schedule ext (t # ts) st = run_schedule ext ts (thread_step ext t st)"



text \<open>
  What the proof about concurrent calls is stated with: a bound on the steps a call has
  left, the calls that have returned \<^verbatim>\<open>nil\<close>, and the two shapes of a state in which
  no conversation has failed.
\<close>

fun rank :: "auth_pc \<Rightarrow> nat" where
  "rank AtStart = 5"
| "rank (AfterSnapshot tok) = 4"
| "rank AfterFailedConversation = 3"
| "rank AtDispatch = 2"
| "rank (AfterGetAccessToken tok) = 1"
| "rank (Returned r) = 0"







section \<open>Theorems\<close>

subsection \<open>Invalidation is fenced by the generation\<close>

text \<open>
  C1. For a connection handle whose recorded generation is \<open>g\<close> and an authenticator
  whose generation counter is \<open>G\<close>, \<^verbatim>\<open>invalidateAccessToken\<close> leaves the cached token
  empty and the connection's recorded generation 0 if and only if \<open>g = 0\<close> or
  \<open>g \<ge> G\<close>; otherwise the authenticator and the connection are unchanged. In both
  cases the generation counter, and every field but the cached token, is as it was.
\<close>

theorem invalidateAccessToken_fencing:
  assumes "invalidateAccessToken oa conn = (oa', conn')"
  shows "((accessToken oa' = [] \<and> OIDCTokenGenID conn' = 0) \<longleftrightarrow>
            (OIDCTokenGenID conn = 0 \<or> tokenGenID oa \<le> OIDCTokenGenID conn))
       \<and> (\<not> (OIDCTokenGenID conn = 0 \<or> tokenGenID oa \<le> OIDCTokenGenID conn) \<longrightarrow>
            oa' = oa \<and> conn' = conn)
       \<and> tokenGenID oa' = tokenGenID oa
       \<and> oa' = oa\<lparr>accessToken := accessToken oa'\<rparr>"
  using assms
  by (auto simp: invalidateAccessToken_def Let_def OIDCTokenGenID_def SetOIDCTokenGenID_def
      split: if_splits)

text \<open>
  A stale connection (generation 3 against a counter of 5) changes nothing; a connection
  of the current generation clears the token and its own slot.
\<close>

theorem invalidateAccessToken_fencing_witness:
  "invalidateAccessToken (example_oa ''T1'' 5) \<lparr>oidcTokenGenID = 3\<rparr> =
     (example_oa ''T1'' 5, \<lparr>oidcTokenGenID = 3\<rparr>)
   \<and> \<not> (OIDCTokenGenID \<lparr>oidcTokenGenID = 3\<rparr> = 0
        \<or> tokenGenID (example_oa ''T1'' 5) \<le> OIDCTokenGenID \<lparr>oidcTokenGenID = 3\<rparr>)
   \<and> invalidateAccessToken (example_oa ''T1'' 5) \<lparr>oidcTokenGenID = 5\<rparr> =
     (example_oa [] 5, \<lparr>oidcTokenGenID = 0\<rparr>)
   \<and> accessToken (example_oa [] 5) = []"
  using invalidateAccessToken_fencing [of "example_oa ''T1'' 5" "\<lparr>oidcTokenGenID = 3\<rparr>"
      "example_oa ''T1'' 5" "\<lparr>oidcTokenGenID = 3\<rparr>"]
    invalidateAccessToken_fencing [of "example_oa ''T1'' 5" "\<lparr>oidcTokenGenID = 5\<rparr>"
      "example_oa [] 5" "\<lparr>oidcTokenGenID = 0\<rparr>"]
  by (simp add: invalidateAccessToken_def Let_def OIDCTokenGenID_def SetOIDCTokenGenID_def
      example_oa_def)

subsection \<open>PLAIN\<close>

text \<open>
  C9. For every user name and password the PLAIN client's one payload is NUL, the user
  name, NUL, the password, under the mechanism name \<^verbatim>\<open>PLAIN\<close> and with no error; the
  client reports completion; any challenge passed to \<^verbatim>\<open>Next\<close> is answered with no
  payload and the error "unexpected server challenge"; and \<^verbatim>\<open>Reauth\<close> returns the
  error "Plain authentication does not support reauthentication", whatever the
  authenticator holds. The authenticator built from a credential hands its user name and
  password to that client.
\<close>

theorem plain_one_step:
  "Start (PlainClient c) = (PLAIN, Bytes (CHR 0x00 # username c @ CHR 0x00 # password c), None)
   \<and> Completed (PlainClient c)
   \<and> Next (PlainClient c) challenge =
        (None, Some (AuthError (Sprintf ''unexpected server challenge'' []) None))
   \<and> PlainAuthenticator_Reauth a =
        Some (AuthError (Sprintf ''Plain authentication does not support reauthentication'' []) None)
   \<and> newPlainAuthenticator cred hc =
        (Some \<lparr>plain_Username = Username cred, plain_Password = Password cred\<rparr>, None)
   \<and> events (snd (PlainAuthenticator_Auth ext a cfg w)) =
        events w @ [ConversationConducted ''$external''
           (PlainClient \<lparr>username = plain_Username a, password = plain_Password a\<rparr>)]"
  by (simp add: plainSaslClient_Start_def plainSaslClient_Completed_def plainSaslClient_Next_def
      PlainAuthenticator_Reauth_def newAuthError_def newPlainAuthenticator_def
      PlainAuthenticator_Auth_def conduct_def split: prod.splits)

subsection \<open>The contract of \<^verbatim>\<open>getAccessToken\<close>\<close>

lemma getAccessToken_cached:
  "accessToken oa \<noteq> [] \<Longrightarrow>
   getAccessToken oa conn args callback w = (Return (accessToken oa, None), oa, conn, w)"
  by (simp add: getAccessToken_def)

lemma invoke_eq:
  "invoke callback args w =
     (fst (callback args (outside w)),
      w\<lparr>outside := snd (callback args (outside w)),
         events := events w @ [CallbackInvoked args]\<rparr>)"
  by (simp add: invoke_def split: prod.splits)

lemma getAccessToken_success:
  "accessToken oa = [] \<Longrightarrow> fst (callback args (outside w)) = (Some cred, None) \<Longrightarrow>
   getAccessToken oa conn args callback w =
     (Return (AccessToken cred, None),
      oa\<lparr>accessToken := AccessToken cred,
         refreshToken := (case RefreshToken cred of Some r \<Rightarrow> Some r | None \<Rightarrow> refreshToken oa),
         tokenGenID := tokenGenID oa + 1\<rparr>,
      conn\<lparr>oidcTokenGenID := tokenGenID oa + 1\<rparr>,
      w\<lparr>outside := snd (callback args (outside w)),
         events := events w @ [CallbackInvoked args]\<rparr>)"
  by (simp add: getAccessToken_def invoke_eq Let_def SetOIDCTokenGenID_def split: option.splits)

lemma getAccessToken_failure:
  "accessToken oa = [] \<Longrightarrow> fst (callback args (outside w)) = (c, Some err) \<Longrightarrow>
   getAccessToken oa conn args callback w =
     (Return ([], Some err), oa, conn,
      w\<lparr>outside := snd (callback args (outside w)),
         events := events w @ [CallbackInvoked args]\<rparr>)"
  by (simp add: getAccessToken_def invoke_eq split: option.splits)

lemma getAccessToken_panic:
  "accessToken oa = [] \<Longrightarrow> fst (callback args (outside w)) = (None, None) \<Longrightarrow>
   getAccessToken oa conn args callback w =
     (Panic, oa, conn,
      w\<lparr>outside := snd (callback args (outside w)),
         events := events w @ [CallbackInvoked args]\<rparr>)"
  by (simp add: getAccessToken_def invoke_eq)


text \<open>
  C2. \<^verbatim>\<open>getAccessToken\<close> with a non-empty cached token returns that token and
  changes nothing: the callback is not called (the outside world and the list of calls are
  as before). With an empty cache it calls the callback exactly once. If the callback
  returns a credential and no error, the call returns the credential's access token, stores
  it, adds one to the generation counter, records the new counter on the connection, and
  keeps the credential's refresh token if it has one (else the old one stays); nothing else
  of the authenticator changes. If the callback returns an error, the call returns that
  error and the authenticator and the connection are exactly as they were. (A callback that
  returns neither a credential nor an error makes the call panic, with the authenticator and
  the connection as they were.)
\<close>

theorem getAccessToken_contract:
  assumes "getAccessToken oa conn args callback w = (res, oa', conn', w')"
  shows
   "(accessToken oa \<noteq> [] \<longrightarrow>
       res = Return (accessToken oa, None) \<and> oa' = oa \<and> conn' = conn \<and> w' = w)
  \<and> (accessToken oa = [] \<longrightarrow>
       w' = w\<lparr>outside := snd (callback args (outside w)),
              events := events w @ [CallbackInvoked args]\<rparr>
     \<and> (\<forall>cred. fst (callback args (outside w)) = (Some cred, None) \<longrightarrow>
          res = Return (AccessToken cred, None)
        \<and> accessToken oa' = AccessToken cred
        \<and> tokenGenID oa' = tokenGenID oa + 1
        \<and> OIDCTokenGenID conn' = tokenGenID oa + 1
        \<and> refreshToken oa' =
            (case RefreshToken cred of Some r \<Rightarrow> Some r | None \<Rightarrow> refreshToken oa)
        \<and> oa' = oa\<lparr>accessToken := accessToken oa', refreshToken := refreshToken oa',
                    tokenGenID := tokenGenID oa'\<rparr>)
     \<and> (\<forall>c err. fst (callback args (outside w)) = (c, Some err) \<longrightarrow>
          res = Return ([], Some err) \<and> oa' = oa \<and> conn' = conn)
     \<and> (fst (callback args (outside w)) = (None, None) \<longrightarrow>
          res = Panic \<and> oa' = oa \<and> conn' = conn))"
proof (cases "accessToken oa = []")
  case False
  with assms show ?thesis by (auto simp: getAccessToken_cached)
next
  case empty: True
  obtain c e where r: "fst (callback args (outside w)) = (c, e)"
    by (cases "fst (callback args (outside w))")
  show ?thesis
  proof (cases e)
    case (Some err)
    with assms empty r show ?thesis by (simp add: getAccessToken_failure)
  next
    case None
    show ?thesis
    proof (cases c)
      case nocred: None
      with assms empty r None show ?thesis by (simp add: getAccessToken_panic)
    next
      case (Some cred)
      with assms empty r None show ?thesis
        by (auto simp: getAccessToken_success OIDCTokenGenID_def)
    qed
  qed
qed


text \<open>
  A cached token; a fresh acquisition; a failing callback; a callback that returns neither
  a credential nor an error.
\<close>

theorem getAccessToken_contract_witness:
  "getAccessToken (example_oa ''T0'' 4) \<lparr>oidcTokenGenID = 2\<rparr> example_args example_callback
      example_world =
     (Return (''T0'', None), example_oa ''T0'' 4, \<lparr>oidcTokenGenID = 2\<rparr>, example_world)
   \<and> getAccessToken (example_oa [] 4) \<lparr>oidcTokenGenID = 2\<rparr> example_args example_callback
      example_world =
     (Return (''T1'', None), (example_oa ''T1'' 5)\<lparr>refreshToken := Some ''R1''\<rparr>,
      \<lparr>oidcTokenGenID = 5\<rparr>, \<lparr>outside = 1, events = [CallbackInvoked example_args]\<rparr>)
   \<and> getAccessToken (example_oa [] 4) \<lparr>oidcTokenGenID = 2\<rparr> example_args failing_callback
      example_world =
     (Return ([], Some (ExternalError ''idp unreachable'')), example_oa [] 4,
      \<lparr>oidcTokenGenID = 2\<rparr>, \<lparr>outside = 1, events = [CallbackInvoked example_args]\<rparr>)
   \<and> getAccessToken (example_oa [] 4) \<lparr>oidcTokenGenID = 2\<rparr> example_args nil_callback
      example_world =
     (Panic, example_oa [] 4,
      \<lparr>oidcTokenGenID = 2\<rparr>, \<lparr>outside = 1, events = [CallbackInvoked example_args]\<rparr>)"
proof -
  have a: "getAccessToken (example_oa ''T0'' 4) \<lparr>oidcTokenGenID = 2\<rparr> example_args example_callback
      example_world =
     (Return (''T0'', None), example_oa ''T0'' 4, \<lparr>oidcTokenGenID = 2\<rparr>, example_world)"
    by (simp add: getAccessToken_def example_oa_def)
  have b: "getAccessToken (example_oa [] 4) \<lparr>oidcTokenGenID = 2\<rparr> example_args example_callback
      example_world =
     (Return (''T1'', None), (example_oa ''T1'' 5)\<lparr>refreshToken := Some ''R1''\<rparr>,
      \<lparr>oidcTokenGenID = 5\<rparr>, \<lparr>outside = 1, events = [CallbackInvoked example_args]\<rparr>)"
    by (simp add: getAccessToken_def invoke_def Let_def SetOIDCTokenGenID_def example_oa_def
      example_callback_def example_world_def example_credential_def)
  have c: "getAccessToken (example_oa [] 4) \<lparr>oidcTokenGenID = 2\<rparr> example_args failing_callback
      example_world =
     (Return ([], Some (ExternalError ''idp unreachable'')), example_oa [] 4,
      \<lparr>oidcTokenGenID = 2\<rparr>, \<lparr>outside = 1, events = [CallbackInvoked example_args]\<rparr>)"
    by (simp add: getAccessToken_def invoke_def example_oa_def
      failing_callback_def example_world_def)
  have d: "getAccessToken (example_oa [] 4) \<lparr>oidcTokenGenID = 2\<rparr> example_args nil_callback
      example_world =
     (Panic, example_oa [] 4,
      \<lparr>oidcTokenGenID = 2\<rparr>, \<lparr>outside = 1, events = [CallbackInvoked example_args]\<rparr>)"
    by (simp add: getAccessToken_def invoke_def example_oa_def
      nil_callback_def example_world_def)
  from getAccessToken_contract [OF a] getAccessToken_contract [OF b] getAccessToken_contract [OF c]
    getAccessToken_contract [OF d] a b c d
  show ?thesis by simp
qed

subsection \<open>The speculative conversation\<close>

text \<open>
  C8. \<^verbatim>\<open>CreateSpeculativeConversation\<close> with an empty cached token returns no
  conversation and no error. With a non-empty cached token it returns, with no error, a
  conversation whose client is a one-step client: its first (and only) payload is the
  document with the single element "jwt" holding exactly the cached token, it reports
  completion, and any further step is an error.
\<close>

theorem CreateSpeculativeConversation_jwt:
  "(accessToken oa = [] \<longrightarrow> CreateSpeculativeConversation oa = (None, None))
 \<and> (accessToken oa \<noteq> [] \<longrightarrow> (\<exists>conv. CreateSpeculativeConversation oa = (Some conv, None)
      \<and> Start (client conv) =
          (MongoDBOIDC, Document [StringElement ''jwt'' (accessToken oa)], None)
      \<and> Completed (client conv)
      \<and> (\<forall>ch. Next (client conv) ch =
            (None, Some (AuthError (Sprintf ''unexpected step in OIDC authentication'' []) None)))
      \<and> source conv = ''$external'' \<and> speculative conv))"
  by (simp add: CreateSpeculativeConversation_def Let_def newSaslConversation_def
      oidcOneStep_Start_def jwtStepRequest_def Build_def AppendString_def NewDocumentBuilder_def
      oidcOneStep_Completed_def oidcOneStep_Next_def newAuthError_def)

theorem CreateSpeculativeConversation_jwt_witness:
  "CreateSpeculativeConversation (example_oa [] 0) = (None, None)
   \<and> CreateSpeculativeConversation (example_oa ''T1'' 1) =
       (Some \<lparr>client = OidcClient \<lparr>oos_userName = [], oos_accessToken = ''T1''\<rparr>,
              source = ''$external'', speculative = True\<rparr>, None)
   \<and> Start (OidcClient \<lparr>oos_userName = [], oos_accessToken = ''T1''\<rparr>) =
       (''MONGODB-OIDC'', Document [StringElement ''jwt'' ''T1''], None)"
  using CreateSpeculativeConversation_jwt [of "example_oa [] 0"]
    CreateSpeculativeConversation_jwt [of "example_oa ''T1'' 1"]
  by (simp add: CreateSpeculativeConversation_def Let_def newSaslConversation_def example_oa_def
      oidcOneStep_Start_def jwtStepRequest_def Build_def AppendString_def NewDocumentBuilder_def
      MongoDBOIDC_def)

subsection \<open>Validation of the credential\<close>

lemma ToLower_examples:
  "ToLower ''k8s'' = ''k8s''" "ToLower ''Azure'' = ''azure''" "ToLower ''azure'' = ''azure''"
  "ToLower ''GCP'' = ''gcp''" "ToLower ''test'' = ''test''"
  by code_simp+

lemma example_strings:
  "MongoDBOIDC = ''MONGODB-OIDC''" "environmentProp = ''ENVIRONMENT''"
  "resourceProp = ''TOKEN_RESOURCE''" "azureEnvironmentValue = ''azure''"
  "gcpEnvironmentValue = ''gcp''" "testEnvironmentValue = ''test''"
  by (simp_all add: MongoDBOIDC_def environmentProp_def resourceProp_def
      azureEnvironmentValue_def gcpEnvironmentValue_def testEnvironmentValue_def)

lemma newOIDCAuthenticator_password:
  "Password cred \<noteq> [] \<Longrightarrow>
   newOIDCAuthenticator cred hc =
     (None, Some (Errorf ''password cannot be specified for %q'' [VString MongoDBOIDC]))"
  by (simp add: newOIDCAuthenticator_def Let_def)

lemma lookup_prop_Some_Props: "lookup_prop ps k = Some v \<Longrightarrow> ps \<noteq> None"
  by (cases ps) (simp_all add: lookup_prop_def)

lemma newOIDCAuthenticator_resource:
  "Password cred = [] \<Longrightarrow> lookup_prop (Props cred) environmentProp = Some env \<Longrightarrow>
   ToLower env = azureEnvironmentValue \<or> ToLower env = gcpEnvironmentValue \<Longrightarrow>
   lookup_prop (Props cred) resourceProp = None \<Longrightarrow>
   newOIDCAuthenticator cred hc =
     (None, Some (Errorf ''%q must be specified for %q %q''
        [VString resourceProp, VString env, VString environmentProp]))"
  by (frule lookup_prop_Some_Props) (auto simp add: newOIDCAuthenticator_def Let_def)

lemma newOIDCAuthenticator_callbacks:
  "Password cred = [] \<Longrightarrow> lookup_prop (Props cred) environmentProp = Some env \<Longrightarrow>
   ToLower env = azureEnvironmentValue \<or> ToLower env = gcpEnvironmentValue
     \<or> ToLower env = testEnvironmentValue \<Longrightarrow>
   ToLower env = testEnvironmentValue \<or> lookup_prop (Props cred) resourceProp \<noteq> None \<Longrightarrow>
   cred_OIDCMachineCallback cred \<noteq> None \<or> cred_OIDCHumanCallback cred \<noteq> None \<Longrightarrow>
   newOIDCAuthenticator cred hc =
     (None, Some (Errorf ''OIDC callbacks are not allowed for %q %q''
        [VString env, VString environmentProp]))"
  by (frule lookup_prop_Some_Props)
     (auto simp add: newOIDCAuthenticator_def Let_def azureEnvironmentValue_def
       gcpEnvironmentValue_def testEnvironmentValue_def)

lemma newOIDCAuthenticator_cases:
  "newOIDCAuthenticator cred hc = (Some (constructed cred hc), None)
   \<or> (\<exists>e. newOIDCAuthenticator cred hc = (None, Some e))"
  by (auto simp add: newOIDCAuthenticator_def Let_def constructed_def split: option.splits)

lemma newOIDCAuthenticator_accepts_iff:
  "snd (newOIDCAuthenticator cred hc) = None \<longleftrightarrow>
     Password cred = []
   \<and> (\<forall>env. lookup_prop (Props cred) environmentProp = Some env \<longrightarrow>
         (ToLower env = azureEnvironmentValue \<or> ToLower env = gcpEnvironmentValue \<longrightarrow>
            lookup_prop (Props cred) resourceProp \<noteq> None)
       \<and> (ToLower env = azureEnvironmentValue \<or> ToLower env = gcpEnvironmentValue
            \<or> ToLower env = testEnvironmentValue \<longrightarrow>
            cred_OIDCMachineCallback cred = None \<and> cred_OIDCHumanCallback cred = None))"
  by (cases "Props cred")
     (auto simp add: newOIDCAuthenticator_def Let_def lookup_prop_def split: option.splits)

text \<open>
  C6, as the code has it. \<^verbatim>\<open>newOIDCAuthenticator\<close> is a function of the credential
  alone (it is handed no connection and calls nothing), and it returns no authenticator
  and an error for every credential in which: the password is non-empty; or the
  \<^verbatim>\<open>ENVIRONMENT\<close> property, lower-cased, is "azure" or "gcp" and the
  \<^verbatim>\<open>TOKEN_RESOURCE\<close> property is absent; or the \<^verbatim>\<open>ENVIRONMENT\<close>
  property, lower-cased, is "azure", "gcp" or "test" and a machine or a human callback is
  supplied. The error is that of the first of these checks that fails.
\<close>

theorem newOIDCAuthenticator_rejects:
  "(Password cred \<noteq> [] \<longrightarrow>
      newOIDCAuthenticator cred hc =
        (None, Some (Errorf ''password cannot be specified for %q'' [VString MongoDBOIDC])))
 \<and> (\<forall>env. lookup_prop (Props cred) environmentProp = Some env
        \<and> (ToLower env = azureEnvironmentValue \<or> ToLower env = gcpEnvironmentValue)
        \<and> lookup_prop (Props cred) resourceProp = None \<longrightarrow>
      newOIDCAuthenticator cred hc =
        (None, Some
          (if Password cred \<noteq> []
           then Errorf ''password cannot be specified for %q'' [VString MongoDBOIDC]
           else Errorf ''%q must be specified for %q %q''
                  [VString resourceProp, VString env, VString environmentProp])))
 \<and> (\<forall>env. lookup_prop (Props cred) environmentProp = Some env
        \<and> (ToLower env = azureEnvironmentValue \<or> ToLower env = gcpEnvironmentValue
             \<or> ToLower env = testEnvironmentValue)
        \<and> (cred_OIDCMachineCallback cred \<noteq> None \<or> cred_OIDCHumanCallback cred \<noteq> None) \<longrightarrow>
      newOIDCAuthenticator cred hc =
        (None, Some
          (if Password cred \<noteq> []
           then Errorf ''password cannot be specified for %q'' [VString MongoDBOIDC]
           else if (ToLower env = azureEnvironmentValue \<or> ToLower env = gcpEnvironmentValue)
                   \<and> lookup_prop (Props cred) resourceProp = None
           then Errorf ''%q must be specified for %q %q''
                  [VString resourceProp, VString env, VString environmentProp]
           else Errorf ''OIDC callbacks are not allowed for %q %q''
                  [VString env, VString environmentProp])))"
proof (intro conjI allI impI)
  show "newOIDCAuthenticator cred hc =
        (None, Some (Errorf ''password cannot be specified for %q'' [VString MongoDBOIDC]))"
    if "Password cred \<noteq> []"
    using that by (rule newOIDCAuthenticator_password)
next
  fix env
  assume a: "lookup_prop (Props cred) environmentProp = Some env
        \<and> (ToLower env = azureEnvironmentValue \<or> ToLower env = gcpEnvironmentValue)
        \<and> lookup_prop (Props cred) resourceProp = None"
  show "newOIDCAuthenticator cred hc =
        (None, Some
          (if Password cred \<noteq> []
           then Errorf ''password cannot be specified for %q'' [VString MongoDBOIDC]
           else Errorf ''%q must be specified for %q %q''
                  [VString resourceProp, VString env, VString environmentProp]))"
  proof (cases "Password cred = []")
    case True
    with a show ?thesis by (simp add: newOIDCAuthenticator_resource)
  next
    case False
    then show ?thesis by (simp add: newOIDCAuthenticator_password)
  qed
next
  fix env
  assume a: "lookup_prop (Props cred) environmentProp = Some env
        \<and> (ToLower env = azureEnvironmentValue \<or> ToLower env = gcpEnvironmentValue
             \<or> ToLower env = testEnvironmentValue)
        \<and> (cred_OIDCMachineCallback cred \<noteq> None \<or> cred_OIDCHumanCallback cred \<noteq> None)"
  show "newOIDCAuthenticator cred hc =
        (None, Some
          (if Password cred \<noteq> []
           then Errorf ''password cannot be specified for %q'' [VString MongoDBOIDC]
           else if (ToLower env = azureEnvironmentValue \<or> ToLower env = gcpEnvironmentValue)
                   \<and> lookup_prop (Props cred) resourceProp = None
           then Errorf ''%q must be specified for %q %q''
                  [VString resourceProp, VString env, VString environmentProp]
           else Errorf ''OIDC callbacks are not allowed for %q %q''
                  [VString env, VString environmentProp]))"
  proof (cases "Password cred = []")
    case False
    then show ?thesis by (simp add: newOIDCAuthenticator_password)
  next
    case pw: True
    show ?thesis
    proof (cases "(ToLower env = azureEnvironmentValue \<or> ToLower env = gcpEnvironmentValue)
                   \<and> lookup_prop (Props cred) resourceProp = None")
      case True
      with a pw show ?thesis by (simp add: newOIDCAuthenticator_resource)
    next
      case False
      with a have "ToLower env = testEnvironmentValue
          \<or> lookup_prop (Props cred) resourceProp \<noteq> None" by auto
      with a pw False show ?thesis
        using newOIDCAuthenticator_callbacks [of cred env hc] by simp
    qed
  qed
qed

text \<open>
  A password; "Azure" with no resource; "test" with a callback.
\<close>

theorem newOIDCAuthenticator_rejects_witness:
  "newOIDCAuthenticator (example_cred ''secret'' Map.empty None) None =
     (None, Some (Errorf ''password cannot be specified for %q'' [VString ''MONGODB-OIDC'']))
   \<and> newOIDCAuthenticator (example_cred [] [''ENVIRONMENT'' \<mapsto> ''Azure''] None) None =
     (None, Some (Errorf ''%q must be specified for %q %q''
        [VString ''TOKEN_RESOURCE'', VString ''Azure'', VString ''ENVIRONMENT'']))
   \<and> newOIDCAuthenticator
       (example_cred [] [''ENVIRONMENT'' \<mapsto> ''test''] (Some example_callback)) None =
     (None, Some (Errorf ''OIDC callbacks are not allowed for %q %q''
        [VString ''test'', VString ''ENVIRONMENT'']))"
  using newOIDCAuthenticator_rejects [of "example_cred ''secret'' Map.empty None" None]
    newOIDCAuthenticator_rejects [of "example_cred [] [''ENVIRONMENT'' \<mapsto> ''Azure''] None" None]
    newOIDCAuthenticator_rejects
      [of "example_cred [] [''ENVIRONMENT'' \<mapsto> ''test''] (Some example_callback)" None]
  by (simp add: example_strings example_cred_def lookup_prop_def ToLower_examples)

text \<open>
  C6 as the claim states it fails: it asks that every credential with a platform tag and a
  user-supplied callback be rejected. The tag "k8s" is none of the three the
  \<^verbatim>\<open>switch\<close> names, so the credential below, which has that tag and a machine
  callback, is accepted.
\<close>

theorem unknown_tag_with_callback_accepted:
  "lookup_prop (Props (example_cred [] [''ENVIRONMENT'' \<mapsto> ''k8s''] (Some example_callback)))
      environmentProp = Some ''k8s''
   \<and> cred_OIDCMachineCallback
        (example_cred [] [''ENVIRONMENT'' \<mapsto> ''k8s''] (Some example_callback)) =
       Some example_callback
   \<and> newOIDCAuthenticator
        (example_cred [] [''ENVIRONMENT'' \<mapsto> ''k8s''] (Some example_callback)) None =
       (Some (constructed
          (example_cred [] [''ENVIRONMENT'' \<mapsto> ''k8s''] (Some example_callback)) None), None)"
  by (simp add: example_strings example_cred_def lookup_prop_def ToLower_examples newOIDCAuthenticator_def
      constructed_def)

subsection \<open>The order of the callbacks in \<^verbatim>\<open>Auth\<close>\<close>

lemma invalidateAccessToken_fields:
  "invalidateAccessToken oa conn = (oa1, conn1) \<Longrightarrow>
   oa1 = oa\<lparr>accessToken := accessToken oa1\<rparr>"
  by (auto simp: invalidateAccessToken_def Let_def split: if_splits)

lemma enters_dispatch_fields:
  assumes "enters_dispatch ext oa c w = Some (oa1, c1, w1)"
  shows "oa1 = oa\<lparr>accessToken := accessToken oa1\<rparr>"
  using assms
  by (auto simp: enters_dispatch_def split: if_splits prod.splits option.splits
      dest: invalidateAccessToken_fields)

lemma providerCallback_accessToken [simp]:
  "providerCallback ext (oa\<lparr>accessToken := t\<rparr>) = providerCallback ext oa"
  by (simp add: providerCallback_def split: option.splits)

lemma Auth_enters:
  "enters_dispatch ext oa c w = Some (oa1, c1, w1) \<Longrightarrow>
   Auth ext oa (Some c) w =
     (case Auth_dispatch ext oa1 c1 w1 of (r, oa2, c2, w2) \<Rightarrow> (r, oa2, Some c2, w2))"
  by (auto simp: enters_dispatch_def Auth_def Let_def split: if_splits prod.splits option.splits)


lemma Auth_dispatch_human:
  "OIDCHumanCallback oa = Some human \<Longrightarrow>
   Auth_dispatch ext oa c w =
     (Return (Some (AuthError (Sprintf ''OIDC'' [])
        (Some (Errorf ''human flow not implemented yet, %v'' [VIDPInfo (idpInfo oa)])))),
      oa, c, w)"
  by (simp add: Auth_dispatch_def doAuthHuman_def newAuthError_def)

lemma Auth_dispatch_machine:
  "OIDCHumanCallback oa = None \<Longrightarrow> OIDCMachineCallback oa = Some cb \<Longrightarrow>
   Auth_dispatch ext oa c w = doAuthMachine ext oa c cb w"
  by (simp add: Auth_dispatch_def)

lemma Auth_dispatch_provider:
  "OIDCHumanCallback oa = None \<Longrightarrow> OIDCMachineCallback oa = None \<Longrightarrow>
   providerCallback ext oa = (Some cb, None) \<Longrightarrow>
   Auth_dispatch ext oa c w = doAuthMachine ext oa c cb w"
  by (simp add: Auth_dispatch_def)

lemma Auth_dispatch_provider_error:
  "OIDCHumanCallback oa = None \<Longrightarrow> OIDCMachineCallback oa = None \<Longrightarrow>
   providerCallback ext oa = (cb, Some e) \<Longrightarrow>
   Auth_dispatch ext oa c w =
     (Return (Some (Wrapf ''error getting built-in OIDC provider: %w'' e)), oa, c, w)"
  by (simp add: Auth_dispatch_def split: option.splits)

lemma Auth_dispatch_none:
  "OIDCHumanCallback oa = None \<Longrightarrow> OIDCMachineCallback oa = None \<Longrightarrow>
   providerCallback ext oa = (None, None) \<Longrightarrow>
   Auth_dispatch ext oa c w =
     (Return (Some (AuthError (Sprintf ''no OIDC callback provided'' []) None)), oa, c, w)"
  by (simp add: Auth_dispatch_def newAuthError_def)

text \<open>
  C7. Take a call of \<^verbatim>\<open>Auth\<close> that reaches the choice of the callback (no token
  is cached, or the conversation with the cached token failed), in the state
  \<open>(oa1, c1, w1)\<close>. If a human callback is configured the call returns the error
  "human flow not implemented yet" wrapped in an authentication error, and calls nothing.
  Otherwise, if a machine callback is configured, the call is \<^verbatim>\<open>doAuthMachine\<close>
  with that callback, whatever the built-in provider would resolve. Otherwise the provider
  is asked: a callback it resolves without error is used in \<^verbatim>\<open>doAuthMachine\<close>; an
  error it reports is returned, wrapped; and if it resolves nothing and reports nothing the
  call returns the error "no OIDC callback provided". In the three failing cases nothing
  was called and the authenticator and the connection are as they were at the choice.
\<close>

theorem Auth_dispatch_order:
  assumes "enters_dispatch ext oa c w = Some (oa1, c1, w1)"
  shows
   "(OIDCHumanCallback oa \<noteq> None \<longrightarrow>
       Auth ext oa (Some c) w =
         (Return (Some (AuthError (Sprintf ''OIDC'' [])
            (Some (Errorf ''human flow not implemented yet, %v'' [VIDPInfo (idpInfo oa)])))),
          oa1, Some c1, w1))
  \<and> (OIDCHumanCallback oa = None \<longrightarrow>
       (\<forall>cb. OIDCMachineCallback oa = Some cb \<longrightarrow>
          Auth ext oa (Some c) w =
            (case doAuthMachine ext oa1 c1 cb w1 of (r, oa2, c2, w2) \<Rightarrow> (r, oa2, Some c2, w2)))
     \<and> (OIDCMachineCallback oa = None \<longrightarrow>
          (\<forall>cb. providerCallback ext oa = (Some cb, None) \<longrightarrow>
             Auth ext oa (Some c) w =
               (case doAuthMachine ext oa1 c1 cb w1 of
                  (r, oa2, c2, w2) \<Rightarrow> (r, oa2, Some c2, w2)))
        \<and> (\<forall>cb e. providerCallback ext oa = (cb, Some e) \<longrightarrow>
             Auth ext oa (Some c) w =
               (Return (Some (Wrapf ''error getting built-in OIDC provider: %w'' e)),
                oa1, Some c1, w1))
        \<and> (providerCallback ext oa = (None, None) \<longrightarrow>
             Auth ext oa (Some c) w =
               (Return (Some (AuthError (Sprintf ''no OIDC callback provided'' []) None)),
                oa1, Some c1, w1))))"
proof -
  from assms have f: "oa1 = oa\<lparr>accessToken := accessToken oa1\<rparr>"
    by (rule enters_dispatch_fields)
  have h: "OIDCHumanCallback oa1 = OIDCHumanCallback oa"
    and m: "OIDCMachineCallback oa1 = OIDCMachineCallback oa"
    and i: "idpInfo oa1 = idpInfo oa"
    and p: "providerCallback ext oa1 = providerCallback ext oa"
    by (subst f, simp)+
  show ?thesis
    unfolding Auth_enters [OF assms]
    by (auto simp: Auth_dispatch_human Auth_dispatch_machine Auth_dispatch_provider
        Auth_dispatch_provider_error Auth_dispatch_none h m i p)
qed

text \<open>
  A human callback; no callback at all; a machine callback, whose token the server accepts;
  the built-in provider of "azure"; the built-in provider of "gcp", which reports an error.
\<close>

theorem Auth_dispatch_order_witness:
  "enters_dispatch example_ext ((example_oa [] 0)\<lparr>OIDCHumanCallback := Some example_callback\<rparr>)
      (example_config 0) example_world =
     Some ((example_oa [] 0)\<lparr>OIDCHumanCallback := Some example_callback\<rparr>, example_config 0,
           example_world)
   \<and> Auth example_ext ((example_oa [] 0)\<lparr>OIDCHumanCallback := Some example_callback\<rparr>)
      (Some (example_config 0)) example_world =
     (Return (Some (AuthError (Sprintf ''OIDC'' [])
        (Some (Errorf ''human flow not implemented yet, %v'' [VIDPInfo None])))),
      (example_oa [] 0)\<lparr>OIDCHumanCallback := Some example_callback\<rparr>,
      Some (example_config 0), example_world)
   \<and> Auth example_ext ((example_oa [] 0)\<lparr>OIDCMachineCallback := None\<rparr>)
      (Some (example_config 0)) example_world =
     (Return (Some (AuthError (Sprintf ''no OIDC callback provided'' []) None)),
      (example_oa [] 0)\<lparr>OIDCMachineCallback := None\<rparr>, Some (example_config 0), example_world)
   \<and> Auth example_ext (example_oa [] 0) (Some (example_config 0)) example_world =
     (Return None, (example_oa ''T1'' 1)\<lparr>refreshToken := Some ''R1''\<rparr>, Some (example_config 1),
      \<lparr>outside = 2,
       events = [CallbackInvoked example_args,
                 ConversationConducted ''$external''
                   (OidcClient \<lparr>oos_userName = [], oos_accessToken = ''T1''\<rparr>)]\<rparr>)
   \<and> Auth example_ext (provider_oa ''azure'') (Some (example_config 0)) example_world =
     (Return None,
      (provider_oa ''azure'')\<lparr>accessToken := ''T1'', refreshToken := Some ''R1'', tokenGenID := 1\<rparr>,
      Some (example_config 1),
      \<lparr>outside = 2,
       events = [CallbackInvoked example_args,
                 ConversationConducted ''$external''
                   (OidcClient \<lparr>oos_userName = [], oos_accessToken = ''T1''\<rparr>)]\<rparr>)
   \<and> Auth example_ext (provider_oa ''gcp'') (Some (example_config 0)) example_world =
     (Return (Some (Wrapf ''error getting built-in OIDC provider: %w''
        (Errorf ''automatic token acquisition for %q not implemented yet'' [VString ''gcp'']))),
      provider_oa ''gcp'', Some (example_config 0), example_world)"
proof -
  have h: "enters_dispatch example_ext
      ((example_oa [] 0)\<lparr>OIDCHumanCallback := Some example_callback\<rparr>)
      (example_config 0) example_world =
     Some ((example_oa [] 0)\<lparr>OIDCHumanCallback := Some example_callback\<rparr>, example_config 0,
           example_world)"
    by (simp add: example_strings enters_dispatch_def example_oa_def)
  have n: "enters_dispatch example_ext ((example_oa [] 0)\<lparr>OIDCMachineCallback := None\<rparr>)
      (example_config 0) example_world =
     Some ((example_oa [] 0)\<lparr>OIDCMachineCallback := None\<rparr>, example_config 0, example_world)"
    by (simp add: example_strings enters_dispatch_def example_oa_def)
  have m: "enters_dispatch example_ext (example_oa [] 0) (example_config 0) example_world =
     Some (example_oa [] 0, example_config 0, example_world)"
    by (simp add: example_strings enters_dispatch_def example_oa_def)
  have p: "providerCallback example_ext ((example_oa [] 0)\<lparr>OIDCMachineCallback := None\<rparr>) =
      (None, None)"
    by (simp add: example_strings providerCallback_def example_oa_def lookup_prop_def)
  have d: "doAuthMachine example_ext (example_oa [] 0) (example_config 0) example_callback
      example_world =
     (Return None, (example_oa ''T1'' 1)\<lparr>refreshToken := Some ''R1''\<rparr>, example_config 1,
      \<lparr>outside = 2,
       events = [CallbackInvoked example_args,
                 ConversationConducted ''$external''
                   (OidcClient \<lparr>oos_userName = [], oos_accessToken = ''T1''\<rparr>)]\<rparr>)"
    by (simp add: example_strings doAuthMachine_def getAccessToken_def invoke_def conduct_def Let_def
        SetOIDCTokenGenID_def example_oa_def example_config_def example_callback_def
        example_credential_def example_world_def example_ext_def example_args_def)
  have az: "enters_dispatch example_ext (provider_oa ''azure'') (example_config 0) example_world =
     Some (provider_oa ''azure'', example_config 0, example_world)"
    by (simp add: enters_dispatch_def provider_oa_def example_oa_def)
  have gc: "enters_dispatch example_ext (provider_oa ''gcp'') (example_config 0) example_world =
     Some (provider_oa ''gcp'', example_config 0, example_world)"
    by (simp add: enters_dispatch_def provider_oa_def example_oa_def)
  have paz: "providerCallback example_ext (provider_oa ''azure'') = (Some example_callback, None)"
    by (simp add: providerCallback_def provider_oa_def example_oa_def lookup_prop_def
        example_strings example_ext_def)
  have pgc: "providerCallback example_ext (provider_oa ''gcp'') =
      (Some (gcpCallback ''gcp''),
       Some (Errorf ''automatic token acquisition for %q not implemented yet'' [VString ''gcp'']))"
    by (simp add: providerCallback_def provider_oa_def example_oa_def lookup_prop_def
        example_strings)
  have d2: "doAuthMachine example_ext (provider_oa ''azure'') (example_config 0) example_callback
      example_world =
     (Return None,
      (provider_oa ''azure'')\<lparr>accessToken := ''T1'', refreshToken := Some ''R1'', tokenGenID := 1\<rparr>,
      example_config 1,
      \<lparr>outside = 2,
       events = [CallbackInvoked example_args,
                 ConversationConducted ''$external''
                   (OidcClient \<lparr>oos_userName = [], oos_accessToken = ''T1''\<rparr>)]\<rparr>)"
    by (simp add: doAuthMachine_def getAccessToken_def invoke_def conduct_def Let_def
        SetOIDCTokenGenID_def provider_oa_def example_oa_def example_config_def
        example_callback_def example_credential_def example_world_def example_ext_def
        example_args_def)
  from Auth_dispatch_order [OF h] Auth_dispatch_order [OF n] Auth_dispatch_order [OF m]
    Auth_dispatch_order [OF az] Auth_dispatch_order [OF gc] h p d paz pgc d2
  show ?thesis by (simp add: example_oa_def provider_oa_def)
qed

subsection \<open>The case of the environment tag\<close>

lemma providerCallback_unsupported:
  "lookup_prop (AuthMechanismProperties oa) environmentProp = Some env \<Longrightarrow>
   env \<noteq> azureEnvironmentValue \<Longrightarrow> env \<noteq> gcpEnvironmentValue \<Longrightarrow>
   providerCallback ext oa =
     (None, Some (Errorf ''%q %q not supported for MONGODB-OIDC''
        [VString environmentProp, VString env]))"
  by (simp add: providerCallback_def)

text \<open>
  C10. Let the \<^verbatim>\<open>ENVIRONMENT\<close> property of a credential be \<open>env\<close>, a string
  whose lower-cased form is "azure", "gcp" or "test" and which is neither "azure" nor "gcp"
  itself. Construction validates it as the lower-cased tag: it succeeds exactly when the
  password is empty, \<^verbatim>\<open>TOKEN_RESOURCE\<close> is present (not needed for "test") and no
  callback is supplied. Yet for the authenticator so built the provider resolves nothing
  and reports "ENVIRONMENT env not supported for MONGODB-OIDC", and every later call of
  \<^verbatim>\<open>Auth\<close> on it that reaches the choice of the callback returns that error, wrapped
  as "error getting built-in OIDC provider", having called nothing. (The tag "test" in
  small letters is among these: the provider has no case for it.)
\<close>

theorem environment_case_mismatch:
  assumes env: "lookup_prop (Props cred) environmentProp = Some env"
    and lower: "ToLower env = azureEnvironmentValue \<or> ToLower env = gcpEnvironmentValue
                \<or> ToLower env = testEnvironmentValue"
    and differs: "env \<noteq> azureEnvironmentValue" "env \<noteq> gcpEnvironmentValue"
  shows
   "(snd (newOIDCAuthenticator cred hc) = None \<longleftrightarrow>
       Password cred = []
     \<and> (ToLower env = testEnvironmentValue \<or> lookup_prop (Props cred) resourceProp \<noteq> None)
     \<and> cred_OIDCMachineCallback cred = None \<and> cred_OIDCHumanCallback cred = None)
  \<and> (\<forall>oa0. newOIDCAuthenticator cred hc = (Some oa0, None) \<longrightarrow>
        providerCallback ext oa0 =
          (None, Some (Errorf ''%q %q not supported for MONGODB-OIDC''
             [VString environmentProp, VString env]))
      \<and> (\<forall>oa c w oa1 c1 w1.
            AuthMechanismProperties oa = AuthMechanismProperties oa0
          \<and> OIDCMachineCallback oa = OIDCMachineCallback oa0
          \<and> OIDCHumanCallback oa = OIDCHumanCallback oa0
          \<and> enters_dispatch ext oa c w = Some (oa1, c1, w1) \<longrightarrow>
            Auth ext oa (Some c) w =
              (Return (Some (Wrapf ''error getting built-in OIDC provider: %w''
                 (Errorf ''%q %q not supported for MONGODB-OIDC''
                    [VString environmentProp, VString env]))),
               oa1, Some c1, w1)))"
proof (intro conjI allI impI)
  show "snd (newOIDCAuthenticator cred hc) = None \<longleftrightarrow>
       Password cred = []
     \<and> (ToLower env = testEnvironmentValue \<or> lookup_prop (Props cred) resourceProp \<noteq> None)
     \<and> cred_OIDCMachineCallback cred = None \<and> cred_OIDCHumanCallback cred = None"
    using env lower
    by (auto simp add: newOIDCAuthenticator_accepts_iff azureEnvironmentValue_def
        gcpEnvironmentValue_def testEnvironmentValue_def)
next
  fix oa0 assume ok: "newOIDCAuthenticator cred hc = (Some oa0, None)"
  then have oa0: "oa0 = constructed cred hc"
    using newOIDCAuthenticator_cases [of cred hc] by auto
  from ok have "snd (newOIDCAuthenticator cred hc) = None" by simp
  with env lower have nocb: "cred_OIDCMachineCallback cred = None" "cred_OIDCHumanCallback cred = None"
    by (auto simp add: newOIDCAuthenticator_accepts_iff)
  have props: "lookup_prop (AuthMechanismProperties oa0) environmentProp = Some env"
    using env by (simp add: oa0 constructed_def)
  show "providerCallback ext oa0 =
          (None, Some (Errorf ''%q %q not supported for MONGODB-OIDC''
             [VString environmentProp, VString env]))"
    using props differs by (rule providerCallback_unsupported)
  fix oa c w oa1 c1 w1
  assume a: "AuthMechanismProperties oa = AuthMechanismProperties oa0
          \<and> OIDCMachineCallback oa = OIDCMachineCallback oa0
          \<and> OIDCHumanCallback oa = OIDCHumanCallback oa0
          \<and> enters_dispatch ext oa c w = Some (oa1, c1, w1)"
  then have e: "enters_dispatch ext oa c w = Some (oa1, c1, w1)" by simp
  from a nocb have h: "OIDCHumanCallback oa = None" and m: "OIDCMachineCallback oa = None"
    by (simp_all add: oa0 constructed_def)
  from a props have "lookup_prop (AuthMechanismProperties oa) environmentProp = Some env"
    by simp
  then have p: "providerCallback ext oa =
      (None, Some (Errorf ''%q %q not supported for MONGODB-OIDC''
         [VString environmentProp, VString env]))"
    using differs by (rule providerCallback_unsupported)
  from e have f: "oa1 = oa\<lparr>accessToken := accessToken oa1\<rparr>"
    by (rule enters_dispatch_fields)
  have "OIDCHumanCallback oa1 = None" "OIDCMachineCallback oa1 = None"
    "providerCallback ext oa1 =
      (None, Some (Errorf ''%q %q not supported for MONGODB-OIDC''
         [VString environmentProp, VString env]))"
    using h m p by (subst f, simp)+
  then show "Auth ext oa (Some c) w =
              (Return (Some (Wrapf ''error getting built-in OIDC provider: %w''
                 (Errorf ''%q %q not supported for MONGODB-OIDC''
                    [VString environmentProp, VString env]))),
               oa1, Some c1, w1)"
    by (simp add: Auth_enters [OF e] Auth_dispatch_provider_error)
qed

text \<open>
  The tag "Azure" with a resource.
\<close>

theorem environment_case_mismatch_witness:
  "snd (newOIDCAuthenticator
          (example_cred [] [''ENVIRONMENT'' \<mapsto> ''Azure'', ''TOKEN_RESOURCE'' \<mapsto> ''api://r''] None)
          None) = None
   \<and> ToLower ''Azure'' = azureEnvironmentValue
   \<and> Auth example_ext
        (constructed
          (example_cred [] [''ENVIRONMENT'' \<mapsto> ''Azure'', ''TOKEN_RESOURCE'' \<mapsto> ''api://r''] None)
          None)
        (Some (example_config 0)) example_world =
       (Return (Some (Wrapf ''error getting built-in OIDC provider: %w''
          (Errorf ''%q %q not supported for MONGODB-OIDC''
             [VString ''ENVIRONMENT'', VString ''Azure'']))),
        constructed
          (example_cred [] [''ENVIRONMENT'' \<mapsto> ''Azure'', ''TOKEN_RESOURCE'' \<mapsto> ''api://r''] None)
          None,
        Some (example_config 0), example_world)"
proof -
  let ?cred = "example_cred [] [''ENVIRONMENT'' \<mapsto> ''Azure'', ''TOKEN_RESOURCE'' \<mapsto> ''api://r''] None"
  have env: "lookup_prop (Props ?cred) environmentProp = Some ''Azure''"
    by (simp add: example_strings example_cred_def lookup_prop_def)
  have lower: "ToLower ''Azure'' = azureEnvironmentValue \<or> ToLower ''Azure'' = gcpEnvironmentValue
                \<or> ToLower ''Azure'' = testEnvironmentValue"
    by (simp add: example_strings ToLower_examples)
  have d: "''Azure'' \<noteq> azureEnvironmentValue" "''Azure'' \<noteq> gcpEnvironmentValue"
    by (simp_all add: example_strings)
  have ok: "newOIDCAuthenticator ?cred None = (Some (constructed ?cred None), None)"
    by (simp add: example_strings newOIDCAuthenticator_def constructed_def example_cred_def lookup_prop_def
        ToLower_examples)
  have e: "enters_dispatch example_ext (constructed ?cred None) (example_config 0) example_world =
      Some (constructed ?cred None, example_config 0, example_world)"
    by (simp add: example_strings enters_dispatch_def constructed_def)
  from environment_case_mismatch [OF env lower d, of None example_ext] ok e
  show ?thesis by (simp add: example_strings ToLower_examples)
qed

subsection \<open>The cached token in \<^verbatim>\<open>Auth\<close>\<close>

lemma getAccessToken_world:
  assumes "getAccessToken oa conn args callback w = (r, oa', conn', w')"
  shows "w' = (if accessToken oa \<noteq> [] then w
               else w\<lparr>outside := snd (callback args (outside w)),
                      events := events w @ [CallbackInvoked args]\<rparr>)"
proof (cases "accessToken oa = []")
  case False
  with assms show ?thesis by (auto simp: getAccessToken_cached)
next
  case True
  obtain c e where r: "fst (callback args (outside w)) = (c, e)"
    by (cases "fst (callback args (outside w))")
  show ?thesis
  proof (cases e)
    case (Some err)
    with assms True r show ?thesis by (auto simp: getAccessToken_failure)
  next
    case None
    with assms True r show ?thesis
      by (cases c) (auto simp: getAccessToken_panic getAccessToken_success)
  qed
qed

lemma getAccessToken_events:
  "getAccessToken oa conn args callback w = (r, oa', conn', w') \<Longrightarrow>
   events w' = events w @ (if accessToken oa = [] then [CallbackInvoked args] else [])"
  by (drule getAccessToken_world) simp

lemma conduct_events:
  "conduct ext c db cl w = (r, w') \<Longrightarrow> events w' = events w @ [ConversationConducted db cl]"
  by (auto simp: conduct_def split: prod.splits)

lemma doAuthMachine_events:
  assumes "doAuthMachine ext oa c cb w = (r, oa', c', w')"
  shows "\<exists>evs. events w' = events w @ evs \<and> conversations evs \<le> 1 \<and> callback_calls evs \<le> 1"
proof -
  obtain g oa1 conn1 w1 where g: "getAccessToken oa (Connection c)
      \<lparr>Version = apiVersion, args_IDPInfo = None, args_RefreshToken = None\<rparr> cb w = (g, oa1, conn1, w1)"
    by (metis prod_cases4)
  from getAccessToken_events [OF g] have e1: "events w1 = events w @
      (if accessToken oa = [] then [CallbackInvoked
         \<lparr>Version = apiVersion, args_IDPInfo = None, args_RefreshToken = None\<rparr>] else [])" .
  show ?thesis
  proof (cases g)
    case Panic
    with assms g have "w' = w1" by (simp add: doAuthMachine_def)
    with e1 show ?thesis by auto
  next
    case (Return p)
    obtain tok err where p: "p = (tok, err)" by (cases p)
    show ?thesis
    proof (cases err)
      case (Some e)
      with assms g Return p have "w' = w1" by (simp add: doAuthMachine_def)
      with e1 show ?thesis by auto
    next
      case None
      with assms g Return p obtain r' where
        "conduct ext (c\<lparr>Connection := conn1\<rparr>) ''$external''
            (OidcClient \<lparr>oos_userName = [], oos_accessToken = tok\<rparr>) w1 = (r', w')"
        by (auto simp: doAuthMachine_def split: prod.splits)
      from conduct_events [OF this] e1 show ?thesis by auto
    qed
  qed
qed

lemma Auth_dispatch_events:
  assumes "Auth_dispatch ext oa c w = (r, oa', c', w')"
  shows "\<exists>evs. events w' = events w @ evs \<and> conversations evs \<le> 1 \<and> callback_calls evs \<le> 1"
  using assms
  by (auto simp: Auth_dispatch_def split: option.splits prod.splits dest: doAuthMachine_events)


lemma conduct_eq:
  "conduct ext c db cl w =
     (fst (ConductSaslConversation ext c db cl (outside w)),
      w\<lparr>outside := snd (ConductSaslConversation ext c db cl (outside w)),
         events := events w @ [ConversationConducted db cl]\<rparr>)"
  by (simp add: conduct_def split: prod.splits)

text \<open>
  C4. Take a call of \<^verbatim>\<open>Auth\<close> with a configuration and a non-empty cached token.
  If the conversation with the cached token succeeds, the call returns \<^verbatim>\<open>nil\<close>,
  the authenticator and the connection are unchanged, and the call made exactly one
  conversation and no callback call. If that conversation fails, the call invalidates the
  token (fenced by the connection's generation), sleeps, and runs the choice of the
  callback exactly once, whose result is the call's result; after the first conversation
  and the sleep the call makes at most one more conversation and at most one callback call.
\<close>

theorem Auth_cached_token_once:
  assumes "accessToken oa \<noteq> []"
  shows
   "(\<forall>x. ConductSaslConversation ext c ''$external''
            (OidcClient \<lparr>oos_userName = userName oa, oos_accessToken = accessToken oa\<rparr>)
            (outside w) = (None, x) \<longrightarrow>
        Auth ext oa (Some c) w =
          (Return None, oa, Some c,
           w\<lparr>outside := x,
              events := events w @ [ConversationConducted ''$external''
                (OidcClient \<lparr>oos_userName = userName oa, oos_accessToken = accessToken oa\<rparr>)]\<rparr>))
  \<and> (\<forall>e x. ConductSaslConversation ext c ''$external''
            (OidcClient \<lparr>oos_userName = userName oa, oos_accessToken = accessToken oa\<rparr>)
            (outside w) = (Some e, x) \<longrightarrow>
        (\<exists>r oa2 c2 w2 evs.
            Auth ext oa (Some c) w = (r, oa2, Some c2, w2)
          \<and> Auth_dispatch ext (fst (invalidateAccessToken oa (Connection c)))
                (c\<lparr>Connection := snd (invalidateAccessToken oa (Connection c))\<rparr>)
                (w\<lparr>outside := x,
                   events := events w @ [ConversationConducted ''$external''
                      (OidcClient \<lparr>oos_userName = userName oa, oos_accessToken = accessToken oa\<rparr>),
                      Slept invalidateSleepTimeout]\<rparr>) = (r, oa2, c2, w2)
          \<and> events w2 = events w @ [ConversationConducted ''$external''
                (OidcClient \<lparr>oos_userName = userName oa, oos_accessToken = accessToken oa\<rparr>),
                Slept invalidateSleepTimeout] @ evs
          \<and> conversations evs \<le> 1 \<and> callback_calls evs \<le> 1))"
proof (intro conjI allI impI)
  fix x
  assume "ConductSaslConversation ext c ''$external''
            (OidcClient \<lparr>oos_userName = userName oa, oos_accessToken = accessToken oa\<rparr>)
            (outside w) = (None, x)"
  with assms show "Auth ext oa (Some c) w =
          (Return None, oa, Some c,
           w\<lparr>outside := x,
              events := events w @ [ConversationConducted ''$external''
                (OidcClient \<lparr>oos_userName = userName oa, oos_accessToken = accessToken oa\<rparr>)]\<rparr>)"
    by (simp add: Auth_def Let_def conduct_eq)
next
  fix e x
  let ?cl = "OidcClient \<lparr>oos_userName = userName oa, oos_accessToken = accessToken oa\<rparr>"
  let ?w1 = "w\<lparr>outside := x,
                events := events w @ [ConversationConducted ''$external'' ?cl,
                   Slept invalidateSleepTimeout]\<rparr>"
  let ?oa1 = "fst (invalidateAccessToken oa (Connection c))"
  let ?c1 = "c\<lparr>Connection := snd (invalidateAccessToken oa (Connection c))\<rparr>"
  assume f: "ConductSaslConversation ext c ''$external'' ?cl (outside w) = (Some e, x)"
  obtain r oa2 c2 w2 where d: "Auth_dispatch ext ?oa1 ?c1 ?w1 = (r, oa2, c2, w2)"
    by (metis prod_cases4)
  from assms f d have a: "Auth ext oa (Some c) w = (r, oa2, Some c2, w2)"
    by (auto simp add: Auth_def Let_def conduct_eq sleep_def split: prod.splits)
  from Auth_dispatch_events [OF d] obtain evs where
    "events w2 = events ?w1 @ evs" "conversations evs \<le> 1" "callback_calls evs \<le> 1"
    by blast
  with a d show "\<exists>r oa2 c2 w2 evs.
            Auth ext oa (Some c) w = (r, oa2, Some c2, w2)
          \<and> Auth_dispatch ext ?oa1 ?c1 ?w1 = (r, oa2, c2, w2)
          \<and> events w2 = events w @ [ConversationConducted ''$external'' ?cl,
                Slept invalidateSleepTimeout] @ evs
          \<and> conversations evs \<le> 1 \<and> callback_calls evs \<le> 1"
    by auto
qed


text \<open>
  The server accepts the token "T1" only. A cached "T1" is one conversation. A cached "T0"
  held by a connection of the current generation is invalidated and replaced, in two
  conversations and one callback call. A cached "T0" held by a stale connection is not
  invalidated, so the second and last conversation uses it again and the call fails.
\<close>

theorem Auth_cached_token_once_witness:
  "accessToken (example_oa ''T1'' 1) \<noteq> []
   \<and> Auth example_ext (example_oa ''T1'' 1) (Some (example_config 1)) example_world =
       (Return None, example_oa ''T1'' 1, Some (example_config 1),
        \<lparr>outside = 1,
         events = [ConversationConducted ''$external''
                     (OidcClient \<lparr>oos_userName = ''user'', oos_accessToken = ''T1''\<rparr>)]\<rparr>)
   \<and> Auth example_ext (example_oa ''T0'' 1) (Some (example_config 1)) example_world =
       (Return None, (example_oa ''T1'' 2)\<lparr>refreshToken := Some ''R1''\<rparr>,
        Some (example_config 2),
        \<lparr>outside = 3,
         events = [ConversationConducted ''$external''
                     (OidcClient \<lparr>oos_userName = ''user'', oos_accessToken = ''T0''\<rparr>),
                   Slept 100,
                   CallbackInvoked example_args,
                   ConversationConducted ''$external''
                     (OidcClient \<lparr>oos_userName = [], oos_accessToken = ''T1''\<rparr>)]\<rparr>)
   \<and> Auth example_ext (example_oa ''T0'' 5) (Some (example_config 3)) example_world =
       (Return (Some (ExternalError ''authentication failed'')), example_oa ''T0'' 5,
        Some (example_config 3),
        \<lparr>outside = 2,
         events = [ConversationConducted ''$external''
                     (OidcClient \<lparr>oos_userName = ''user'', oos_accessToken = ''T0''\<rparr>),
                   Slept 100,
                   ConversationConducted ''$external''
                     (OidcClient \<lparr>oos_userName = [], oos_accessToken = ''T0''\<rparr>)]\<rparr>)"
proof -
  have a: "Auth example_ext (example_oa ''T1'' 1) (Some (example_config 1)) example_world =
       (Return None, example_oa ''T1'' 1, Some (example_config 1),
        \<lparr>outside = 1,
         events = [ConversationConducted ''$external''
                     (OidcClient \<lparr>oos_userName = ''user'', oos_accessToken = ''T1''\<rparr>)]\<rparr>)"
    by (simp add: Auth_def Let_def conduct_eq example_oa_def example_ext_def example_world_def)
  have b: "Auth example_ext (example_oa ''T0'' 1) (Some (example_config 1)) example_world =
       (Return None, (example_oa ''T1'' 2)\<lparr>refreshToken := Some ''R1''\<rparr>,
        Some (example_config 2),
        \<lparr>outside = 3,
         events = [ConversationConducted ''$external''
                     (OidcClient \<lparr>oos_userName = ''user'', oos_accessToken = ''T0''\<rparr>),
                   Slept 100,
                   CallbackInvoked example_args,
                   ConversationConducted ''$external''
                     (OidcClient \<lparr>oos_userName = [], oos_accessToken = ''T1''\<rparr>)]\<rparr>)"
    by (simp add: Auth_def Let_def conduct_eq sleep_def invalidateAccessToken_def
        OIDCTokenGenID_def SetOIDCTokenGenID_def Auth_dispatch_def doAuthMachine_def
        getAccessToken_def invoke_eq invalidateSleepTimeout_def
        example_oa_def example_ext_def example_world_def example_config_def
        example_callback_def example_credential_def example_args_def)
  have c: "Auth example_ext (example_oa ''T0'' 5) (Some (example_config 3)) example_world =
       (Return (Some (ExternalError ''authentication failed'')), example_oa ''T0'' 5,
        Some (example_config 3),
        \<lparr>outside = 2,
         events = [ConversationConducted ''$external''
                     (OidcClient \<lparr>oos_userName = ''user'', oos_accessToken = ''T0''\<rparr>),
                   Slept 100,
                   ConversationConducted ''$external''
                     (OidcClient \<lparr>oos_userName = [], oos_accessToken = ''T0''\<rparr>)]\<rparr>)"
    by (simp add: Auth_def Let_def conduct_eq sleep_def invalidateAccessToken_def
        OIDCTokenGenID_def SetOIDCTokenGenID_def Auth_dispatch_def doAuthMachine_def
        getAccessToken_def invoke_eq invalidateSleepTimeout_def
        example_oa_def example_ext_def example_world_def example_config_def
        example_callback_def example_credential_def example_args_def)
  have n: "accessToken (example_oa ''T1'' 1) \<noteq> []" "accessToken (example_oa ''T0'' 1) \<noteq> []"
    "accessToken (example_oa ''T0'' 5) \<noteq> []"
    by (simp_all add: example_oa_def)
  from Auth_cached_token_once [OF n(1), of example_ext "example_config 1" example_world]
    Auth_cached_token_once [OF n(2), of example_ext "example_config 1" example_world]
    Auth_cached_token_once [OF n(3), of example_ext "example_config 3" example_world]
    a b c n
  show ?thesis by simp
qed

subsection \<open>The generation counter\<close>






















subsection \<open>Concurrent calls of \<^verbatim>\<open>Auth\<close>\<close>

lemma Auth_dispatch_choose:
  "Auth_dispatch ext oa c w =
     (case choose_callback ext oa c of
        Inl r \<Rightarrow> (Return r, oa, c, w)
      | Inr cb \<Rightarrow> doAuthMachine ext oa c cb w)"
  by (simp add: Auth_dispatch_def choose_callback_def split: option.splits prod.splits)

lemma pcs_set_pc [simp]: "pcs (set_pc t pc st) = (pcs st)(t := pc)"
  by (simp add: set_pc_def)

lemma shared_set_pc [simp]: "shared (set_pc t pc st) = shared st"
  by (simp add: set_pc_def)

lemma step_AtStart:
  "pcs st t = AtStart \<Longrightarrow>
   thread_step ext t st = set_pc t (AfterSnapshot (accessToken (authenticator (shared st)))) st"
  by (simp add: thread_step_def Let_def)

lemma step_AfterSnapshot_empty:
  "pcs st t = AfterSnapshot [] \<Longrightarrow> thread_step ext t st = set_pc t AtDispatch st"
  by (simp add: thread_step_def Let_def)

lemma step_AfterSnapshot_cached:
  "pcs st t = AfterSnapshot tok \<Longrightarrow> tok \<noteq> [] \<Longrightarrow>
   conduct ext \<lparr>Connection = connections (shared st) t\<rparr> ''$external''
     (OidcClient \<lparr>oos_userName = userName (authenticator (shared st)), oos_accessToken = tok\<rparr>)
     (sys_world (shared st)) = (r, w1) \<Longrightarrow>
   thread_step ext t st =
     set_pc t (case r of None \<Rightarrow> Returned (Return None) | Some err \<Rightarrow> AfterFailedConversation)
       (st\<lparr>shared := (shared st)\<lparr>sys_world := w1\<rparr>\<rparr>)"
  by (simp add: thread_step_def Let_def split: option.splits)

lemma step_AfterFailedConversation:
  "pcs st t = AfterFailedConversation \<Longrightarrow>
   invalidateAccessToken (authenticator (shared st)) (connections (shared st) t) = (oa1, conn1) \<Longrightarrow>
   thread_step ext t st =
     set_pc t AtDispatch
       (st\<lparr>shared := (shared st)\<lparr>authenticator := oa1,
                 connections := (connections (shared st))(t := conn1),
                 sys_world := sleep invalidateSleepTimeout (sys_world (shared st))\<rparr>\<rparr>)"
  by (simp add: thread_step_def Let_def)

lemma step_AtDispatch_error:
  "pcs st t = AtDispatch \<Longrightarrow>
   choose_callback ext (authenticator (shared st)) \<lparr>Connection = connections (shared st) t\<rparr> = Inl r \<Longrightarrow>
   thread_step ext t st = set_pc t (Returned (Return r)) st"
  by (simp add: thread_step_def Let_def)

lemma step_AtDispatch_callback:
  "pcs st t = AtDispatch \<Longrightarrow>
   choose_callback ext (authenticator (shared st)) \<lparr>Connection = connections (shared st) t\<rparr> = Inr cb \<Longrightarrow>
   getAccessToken (authenticator (shared st)) (connections (shared st) t)
     \<lparr>Version = apiVersion, args_IDPInfo = None, args_RefreshToken = None\<rparr> cb
     (sys_world (shared st)) = (r, oa', conn', w') \<Longrightarrow>
   thread_step ext t st =
     set_pc t
       (case r of
          Panic \<Rightarrow> Returned Panic
        | Return (tok, Some err) \<Rightarrow> Returned (Return (Some err))
        | Return (tok, None) \<Rightarrow> AfterGetAccessToken tok)
       (st\<lparr>shared := (shared st)\<lparr>authenticator := oa',
                 connections := (connections (shared st))(t := conn'),
                 sys_world := w'\<rparr>\<rparr>)"
  by (simp add: thread_step_def Let_def)

lemma step_AfterGetAccessToken:
  "pcs st t = AfterGetAccessToken tok \<Longrightarrow>
   conduct ext \<lparr>Connection = connections (shared st) t\<rparr> ''$external''
     (OidcClient \<lparr>oos_userName = [], oos_accessToken = tok\<rparr>) (sys_world (shared st)) = (r, w1) \<Longrightarrow>
   thread_step ext t st =
     set_pc t (Returned (Return r)) (st\<lparr>shared := (shared st)\<lparr>sys_world := w1\<rparr>\<rparr>)"
  by (simp add: thread_step_def Let_def)

lemma step_Returned: "pcs st t = Returned r \<Longrightarrow> thread_step ext t st = st"
  by (simp add: thread_step_def Let_def)

lemma dispatch_run:
  assumes pc: "pcs st t = AtDispatch"
    and d: "Auth_dispatch ext (authenticator (shared st)) \<lparr>Connection = connections (shared st) t\<rparr>
           (sys_world (shared st)) = (r, oa', c', w')"
  shows "run_schedule ext [t, t] st =
           st\<lparr>shared := (shared st)\<lparr>authenticator := oa',
                    connections := (connections (shared st))(t := Connection c'),
                    sys_world := w'\<rparr>,
              pcs := (pcs st)(t := Returned r)\<rparr>"
proof (cases "choose_callback ext (authenticator (shared st))
                \<lparr>Connection = connections (shared st) t\<rparr>")
  case (Inl e)
  with d have "r = Return e" "oa' = authenticator (shared st)"
    "c' = \<lparr>Connection = connections (shared st) t\<rparr>" "w' = sys_world (shared st)"
    by (simp_all add: Auth_dispatch_choose)
  with pc Inl show ?thesis
    by (simp add: step_AtDispatch_error step_Returned set_pc_def)
next
  case (Inr cb)
  obtain g oa1 conn1 w1 where g: "getAccessToken (authenticator (shared st))
      (connections (shared st) t)
      \<lparr>Version = apiVersion, args_IDPInfo = None, args_RefreshToken = None\<rparr> cb
      (sys_world (shared st)) = (g, oa1, conn1, w1)"
    by (metis prod_cases4)
  note s1 = step_AtDispatch_callback [OF pc Inr g]
  from d Inr have m: "doAuthMachine ext (authenticator (shared st))
      \<lparr>Connection = connections (shared st) t\<rparr> cb (sys_world (shared st)) = (r, oa', c', w')"
    by (simp add: Auth_dispatch_choose)
  show ?thesis
  proof (cases g)
    case Panic
    with m g have "r = Panic" "oa' = oa1" "c' = \<lparr>Connection = conn1\<rparr>" "w' = w1"
      by (simp_all add: doAuthMachine_def)
    with s1 Panic show ?thesis
      by (simp add: step_Returned set_pc_def)
  next
    case (Return p)
    obtain tok err where p: "p = (tok, err)" by (cases p)
    show ?thesis
    proof (cases err)
      case (Some e)
      with m g Return p have "r = Return (Some e)" "oa' = oa1" "c' = \<lparr>Connection = conn1\<rparr>"
        "w' = w1"
        by (simp_all add: doAuthMachine_def)
      with s1 Return p Some show ?thesis
        by (simp add: step_Returned set_pc_def)
    next
      case None
      obtain r2 w2 where c: "conduct ext \<lparr>Connection = conn1\<rparr> ''$external''
          (OidcClient \<lparr>oos_userName = [], oos_accessToken = tok\<rparr>) w1 = (r2, w2)"
        by (cases "conduct ext \<lparr>Connection = conn1\<rparr> ''$external''
          (OidcClient \<lparr>oos_userName = [], oos_accessToken = tok\<rparr>) w1")
      with m g Return p None have e: "r = Return r2" "oa' = oa1" "c' = \<lparr>Connection = conn1\<rparr>"
        "w' = w2"
        by (simp_all add: doAuthMachine_def)
      let ?st1 = "set_pc t (AfterGetAccessToken tok)
         (st\<lparr>shared := (shared st)\<lparr>authenticator := oa1,
                 connections := (connections (shared st))(t := conn1), sys_world := w1\<rparr>\<rparr>)"
      from s1 Return p None have 1: "thread_step ext t st = ?st1" by simp
      have "pcs ?st1 t = AfterGetAccessToken tok" by simp
      from step_AfterGetAccessToken [OF this, of ext r2 w2] c
      have "thread_step ext t ?st1 = set_pc t (Returned (Return r2))
          (?st1\<lparr>shared := (shared ?st1)\<lparr>sys_world := w2\<rparr>\<rparr>)"
        by simp
      with 1 e show ?thesis by (simp add: set_pc_def)
    qed
  qed
qed

lemma run_schedule_append:
  "run_schedule ext (xs @ ys) st = run_schedule ext ys (run_schedule ext xs st)"
  by (induction xs arbitrary: st) simp_all

text \<open>
  One thread run alone, five steps from the start, is \<^verbatim>\<open>Auth\<close> on its connection.
\<close>

lemma solo_run:
  assumes pc: "pcs st t = AtStart"
    and a: "Auth ext (authenticator (shared st)) (Some \<lparr>Connection = connections (shared st) t\<rparr>)
           (sys_world (shared st)) = (r, oa', Some c', w')"
  shows "run_schedule ext [t, t, t, t, t] st =
           st\<lparr>shared := (shared st)\<lparr>authenticator := oa',
                    connections := (connections (shared st))(t := Connection c'),
                    sys_world := w'\<rparr>,
              pcs := (pcs st)(t := Returned r)\<rparr>"
proof -
  let ?oa = "authenticator (shared st)"
  let ?c = "\<lparr>Connection = connections (shared st) t\<rparr>"
  let ?w = "sys_world (shared st)"
  let ?st1 = "set_pc t (AfterSnapshot (accessToken ?oa)) st"
  have 1: "thread_step ext t st = ?st1" using pc by (rule step_AtStart)
  show ?thesis
  proof (cases "accessToken ?oa = []")
    case True
    let ?st2 = "set_pc t AtDispatch ?st1"
    have 2: "thread_step ext t ?st1 = ?st2"
      using True by (simp add: step_AfterSnapshot_empty)
    from a True have d: "Auth_dispatch ext ?oa ?c ?w = (r, oa', c', w')"
      by (auto simp: Auth_def Let_def split: prod.splits)
    have "pcs ?st2 t = AtDispatch" by simp
    from dispatch_run [OF this, of ext r oa' c' w'] d
    have 3: "run_schedule ext [t, t] ?st2 =
        ?st2\<lparr>shared := (shared st)\<lparr>authenticator := oa',
                    connections := (connections (shared st))(t := Connection c'),
                    sys_world := w'\<rparr>,
              pcs := (pcs ?st2)(t := Returned r)\<rparr>"
      by simp
    have "run_schedule ext [t, t, t, t, t] st =
        run_schedule ext [t] (run_schedule ext [t, t] ?st2)"
      by (simp add: 1 2)
    also have "\<dots> = run_schedule ext [t, t] ?st2"
      unfolding 3 by (simp add: step_Returned)
    also have "\<dots> = st\<lparr>shared := (shared st)\<lparr>authenticator := oa',
                    connections := (connections (shared st))(t := Connection c'),
                    sys_world := w'\<rparr>,
              pcs := (pcs st)(t := Returned r)\<rparr>"
      unfolding 3 by (simp add: set_pc_def)
    finally show ?thesis .
  next
    case False
    let ?cl = "OidcClient \<lparr>oos_userName = userName ?oa, oos_accessToken = accessToken ?oa\<rparr>"
    obtain e w1 where c: "conduct ext ?c ''$external'' ?cl ?w = (e, w1)"
      by (cases "conduct ext ?c ''$external'' ?cl ?w")
    let ?st2 = "set_pc t (case e of None \<Rightarrow> Returned (Return None)
                          | Some err \<Rightarrow> AfterFailedConversation)
                 (?st1\<lparr>shared := (shared st)\<lparr>sys_world := w1\<rparr>\<rparr>)"
    have "pcs ?st1 t = AfterSnapshot (accessToken ?oa)" by simp
    from step_AfterSnapshot_cached [OF this False, of ext e w1] c
    have 2: "thread_step ext t ?st1 = ?st2" by simp
    show ?thesis
    proof (cases e)
      case None
      with a False c have "r = Return None" "oa' = ?oa" "c' = ?c" "w' = w1"
        by (simp_all add: Auth_def Let_def)
      then have f: "?st2 = st\<lparr>shared := (shared st)\<lparr>authenticator := oa',
                    connections := (connections (shared st))(t := Connection c'),
                    sys_world := w'\<rparr>,
              pcs := (pcs st)(t := Returned r)\<rparr>"
        using None by (simp add: set_pc_def)
      have "run_schedule ext [t, t, t, t, t] st = run_schedule ext [t, t, t] ?st2"
        by (simp add: 1 2)
      also have "\<dots> = ?st2"
        using None by (simp add: step_Returned)
      finally show ?thesis using f by simp
    next
      case (Some err)
      obtain oa1 conn1 where i: "invalidateAccessToken ?oa (connections (shared st) t) = (oa1, conn1)"
        by (cases "invalidateAccessToken ?oa (connections (shared st) t)")
      let ?st3 = "set_pc t AtDispatch
         (?st2\<lparr>shared := (shared ?st2)\<lparr>authenticator := oa1,
                 connections := (connections (shared ?st2))(t := conn1),
                 sys_world := sleep invalidateSleepTimeout (sys_world (shared ?st2))\<rparr>\<rparr>)"
      have "pcs ?st2 t = AfterFailedConversation" using Some by simp
      from step_AfterFailedConversation [OF this, of oa1 conn1 ext] i
      have 3: "thread_step ext t ?st2 = ?st3" by simp
      from a False c Some i
      have d: "Auth_dispatch ext oa1 \<lparr>Connection = conn1\<rparr> (sleep invalidateSleepTimeout w1)
                = (r, oa', c', w')"
        by (auto simp: Auth_def Let_def split: prod.splits)
      have "pcs ?st3 t = AtDispatch" by simp
      from dispatch_run [OF this, of ext r oa' c' w'] d
      have 4: "run_schedule ext [t, t] ?st3 =
        ?st3\<lparr>shared := (shared ?st3)\<lparr>authenticator := oa',
                    connections := (connections (shared ?st3))(t := Connection c'),
                    sys_world := w'\<rparr>,
              pcs := (pcs ?st3)(t := Returned r)\<rparr>"
        by simp
      have "run_schedule ext [t, t, t, t, t] st = run_schedule ext [t, t] ?st3"
        by (simp add: 1 2 3)
      also have "\<dots> = st\<lparr>shared := (shared st)\<lparr>authenticator := oa',
                    connections := (connections (shared st))(t := Connection c'),
                    sys_world := w'\<rparr>,
              pcs := (pcs st)(t := Returned r)\<rparr>"
        unfolding 4 using Some by (simp add: set_pc_def)
      finally show ?thesis .
    qed
  qed
qed














lemma rank_0: "rank pc = 0 \<Longrightarrow> \<exists>r. pc = Returned r"
  by (cases pc) simp_all



end
